theory Spec2Isabelle
  imports Main "HOL-Library.Word"
begin

section \<open>Data model of \<open>Console.h\<close>\<close>

text \<open>
  \<open>wchar_t\<close> is the 16-bit character of the Windows console, \<open>short\<close> (the \<open>SHORT\<close> of
  \<open>COORD\<close>) is a 16-bit word read through \<open>sint\<close>, \<open>size_t\<close> is a 64-bit word where the
  source stores it (the entries of \<open>contentsCursorData\<close>), and a natural number where it
  only counts positions of a string that exists.
\<close>

type_synonym wchar_t = "16 word"
type_synonym wstring = "wchar_t list"
type_synonym short = "16 word"
type_synonym size_t = "64 word"
type_synonym HANDLE = "64 word"

text \<open>A narrow literal as a wide string, as the \<open>L"..."\<close> literals of the source.\<close>

definition L :: "string \<Rightarrow> wstring" where
  "L s = map (\<lambda>c. of_nat (of_char c)) s"

record COORD =
  X :: short
  Y :: short

record CONSOLE_SCREEN_BUFFER_INFO =
  dwCursorPosition :: COORD
  dwMaximumWindowSize :: COORD

text \<open>\<open>Console::OutputBuffer::BufferData\<close> (Console.h, 1534 to 1577).\<close>

record BufferData =
  handle :: HANDLE
  contents :: "wstring list"
  contentsCursorData :: "size_t list list"
  savedCursors :: "COORD list"
  cursorStartPos :: COORD
  cursorScrollOffset :: short
  cursorIsVisible :: bool

text \<open>
  \<open>Console::OutputBuffer\<close>: the main buffer data and the stack of alternate buffer data
  (the head of the list is the top of the \<open>std::stack\<close>).
\<close>

record OutputBuffer =
  mainBufferData :: BufferData
  altBufferData :: "BufferData list"

text \<open>
  The Windows console the buffer engine talks to. Its state is the type \<open>'h\<close>; the record
  holds the API functions the source calls. Everything proved below holds for every
  console, whatever these functions answer.
\<close>

record 'h WinAPI =
  GetConsoleScreenBufferInfo :: "HANDLE \<Rightarrow> 'h \<Rightarrow> CONSOLE_SCREEN_BUFFER_INFO"
  WriteConsoleW :: "HANDLE \<Rightarrow> wstring \<Rightarrow> 'h \<Rightarrow> 'h"
  SetConsoleCursorPosition :: "HANDLE \<Rightarrow> COORD \<Rightarrow> 'h \<Rightarrow> bool \<times> 'h"
  CreateConsoleScreenBuffer :: "'h \<Rightarrow> HANDLE \<times> 'h"
  SetConsoleActiveScreenBuffer :: "HANDLE \<Rightarrow> 'h \<Rightarrow> 'h"
  CloseHandle :: "HANDLE \<Rightarrow> 'h \<Rightarrow> 'h"

text \<open>
  What the source does where C++ gives no value: \<open>bad_alloc\<close> is a container growing
  without bound (a negative \<open>short\<close> converted to \<open>size_t\<close> as a size to reach),
  \<open>out_of_range\<close> is thrown by \<open>std::wstring::erase\<close>, \<open>undefined_behaviour\<close> is an
  unchecked \<open>operator[]\<close> outside the container or the dereference of an empty
  \<open>std::optional\<close>, \<open>format_error\<close> is thrown by \<open>std::format\<close>.
\<close>

datatype error = bad_alloc | out_of_range | undefined_behaviour | format_error

definition and_then :: "error + 'a \<Rightarrow> ('a \<Rightarrow> error + 'b) \<Rightarrow> error + 'b" where
  "and_then r f = (case r of Inl e \<Rightarrow> Inl e | Inr x \<Rightarrow> f x)"



definition max_short :: "short \<Rightarrow> short \<Rightarrow> short" where
  \<comment> \<open>\<open>std::max<short>(a, b)\<close>\<close>
  "max_short a b = (if sint a < sint b then b else a)"

section \<open>The escape-sequence scanner\<close>

text \<open>
  \<open>TERMINAL_SEQUENCE_REGEX\<close> of \<open>Console::OutputBuffer::print\<close> (Console.cpp, 289 to 295):

  \<^verbatim>\<open>^ESC(?:[\w=>]|\([0B]|(?:\[(?:!p|(?:\??\d{0,4} ?[a-zA-Z])|(?:\d{1,3};\d{1,3}[fH])|\<close>
  \<^verbatim>\<open>(?:[34]8;[25];\d{1,3};\d{1,3};\d{1,3})))|(?:\]4;\d{1,3};rgb;\d{1,3};\d{1,3};\d{1,3}BEL))\<close>

  The pattern is anchored at the start of the text it is given, and alternatives are
  tried in the order written (ECMAScript grammar), the first that matches giving the
  match. Every greedy quantifier of the pattern is followed by something that cannot
  match what the quantifier consumes (a digit run is followed by \<open>;\<close>, a space, a letter,
  \<open>BEL\<close> or the end of the pattern), so backtracking into a quantifier never succeeds and
  each piece consumes as much as it can. Character classes are those of the C locale.
  A matcher takes the text and returns what is left after the match.
\<close>

definition VIRTUAL_TERMINAL_SEQUENCE_ESCAPE :: wchar_t where
  "VIRTUAL_TERMINAL_SEQUENCE_ESCAPE = 0x1B"

definition is_digit :: "wchar_t \<Rightarrow> bool" where
  "is_digit c \<longleftrightarrow> 0x30 \<le> c \<and> c \<le> 0x39"

definition is_alpha :: "wchar_t \<Rightarrow> bool" where
  "is_alpha c \<longleftrightarrow> (0x41 \<le> c \<and> c \<le> 0x5A) \<or> (0x61 \<le> c \<and> c \<le> 0x7A)"

definition is_word :: "wchar_t \<Rightarrow> bool" where
  "is_word c \<longleftrightarrow> is_digit c \<or> is_alpha c \<or> c = 0x5F"

type_synonym matcher = "wstring \<Rightarrow> wstring option"

definition one :: "(wchar_t \<Rightarrow> bool) \<Rightarrow> matcher" where
  "one P s = (case s of [] \<Rightarrow> None | c # cs \<Rightarrow> if P c then Some cs else None)"

definition opt :: "wchar_t \<Rightarrow> matcher" where
  "opt a s = (case s of [] \<Rightarrow> Some s | c # cs \<Rightarrow> if c = a then Some cs else Some s)"

definition digits :: "nat \<Rightarrow> nat \<Rightarrow> matcher" where
  "digits lo hi s =
     (let k = length (takeWhile is_digit (take hi s))
      in if lo \<le> k then Some (drop k s) else None)"

fun lit :: "wstring \<Rightarrow> matcher" where
  "lit [] s = Some s"
| "lit (p # ps) [] = None"
| "lit (p # ps) (c # cs) = (if p = c then lit ps cs else None)"

fun seq :: "matcher list \<Rightarrow> matcher" where
  "seq [] s = Some s"
| "seq (m # ms) s = (case m s of None \<Rightarrow> None | Some r \<Rightarrow> seq ms r)"

fun first_of :: "matcher list \<Rightarrow> matcher" where
  "first_of [] s = None"
| "first_of (m # ms) s = (case m s of Some r \<Rightarrow> Some r | None \<Rightarrow> first_of ms s)"

definition csi_sequence :: matcher where
  "csi_sequence =
     seq [lit (L ''[''),
          first_of
            [lit (L ''!p''),
             seq [opt 0x3F, digits 0 4, opt 0x20, one is_alpha],
             seq [digits 1 3, lit (L '';''), digits 1 3, one (\<lambda>c. c = 0x66 \<or> c = 0x48)],
             seq [one (\<lambda>c. c = 0x33 \<or> c = 0x34), lit (L ''8;''),
                  one (\<lambda>c. c = 0x32 \<or> c = 0x35), lit (L '';''),
                  digits 1 3, lit (L '';''), digits 1 3, lit (L '';''), digits 1 3]]]"

definition osc_sequence :: matcher where
  "osc_sequence =
     seq [lit (L '']4;''), digits 1 3, lit (L '';rgb;''), digits 1 3, lit (L '';''),
          digits 1 3, lit (L '';''), digits 1 3, lit [0x07]]"

definition sequence_body :: matcher where
  "sequence_body =
     first_of
       [one (\<lambda>c. is_word c \<or> c = 0x3D \<or> c = 0x3E),
        seq [lit (L ''(''), one (\<lambda>c. c = 0x30 \<or> c = 0x42)],
        csi_sequence,
        osc_sequence]"

definition TERMINAL_SEQUENCE_REGEX :: "wstring \<Rightarrow> nat option" where
  \<comment> \<open>\<open>std::regex_search(&str[strPos], matches, TERMINAL_SEQUENCE_REGEX)\<close> and
      \<open>matches.length()\<close>: the length of the match, the escape character included\<close>
  "TERMINAL_SEQUENCE_REGEX s =
     (case s of
        [] \<Rightarrow> None
      | c # r \<Rightarrow>
          if c = VIRTUAL_TERMINAL_SEQUENCE_ESCAPE
          then map_option (\<lambda>rest. length s - length rest) (sequence_body r)
          else None)"

definition getVirtualTerminalSequence :: "wstring \<Rightarrow> wstring" where
  \<comment> \<open>Console.h, 1087\<close>
  "getVirtualTerminalSequence sequence = VIRTUAL_TERMINAL_SEQUENCE_ESCAPE # sequence"

section \<open>The buffer engine: \<open>Console::OutputBuffer\<close>\<close>

text \<open>
  \<open>programSettings.useCustomBufferBehavior\<close> is the argument \<open>custom\<close> of every operation.
  The engine with its console is a pair \<open>(h, ob)\<close>.
\<close>

definition getCurrentBufferData :: "bool \<Rightarrow> bool \<Rightarrow> OutputBuffer \<Rightarrow> BufferData" where
  \<comment> \<open>Console.cpp, 502 to 513\<close>
  "getCurrentBufferData custom currentHandleBuffer ob =
     (if custom \<and> currentHandleBuffer then mainBufferData ob
      else case altBufferData ob of [] \<Rightarrow> mainBufferData ob | cur # _ \<Rightarrow> cur)"

definition setCurrentBufferData :: "BufferData \<Rightarrow> OutputBuffer \<Rightarrow> OutputBuffer" where
  \<comment> \<open>a write through the reference \<open>getCurrentBufferData()\<close> returns\<close>
  "setCurrentBufferData bd ob =
     (case altBufferData ob of
        [] \<Rightarrow> ob\<lparr>mainBufferData := bd\<rparr>
      | cur # rest \<Rightarrow> ob\<lparr>altBufferData := bd # rest\<rparr>)"

definition getBufferHandle :: "bool \<Rightarrow> OutputBuffer \<Rightarrow> HANDLE" where
  \<comment> \<open>Console.cpp, 494 to 498\<close>
  "getBufferHandle custom ob = handle (getCurrentBufferData custom True ob)"

definition getCursorPos :: "'h WinAPI \<Rightarrow> bool \<Rightarrow> 'h \<times> OutputBuffer \<Rightarrow> COORD" where
  \<comment> \<open>Console.cpp, 191 to 199\<close>
  "getCursorPos api custom w =
     dwCursorPosition (GetConsoleScreenBufferInfo api (getBufferHandle custom (snd w)) (fst w))"

definition getCursorScrollOffset :: "bool \<Rightarrow> OutputBuffer \<Rightarrow> short" where
  \<comment> \<open>Console.cpp, 201 to 205\<close>
  "getCursorScrollOffset custom ob = cursorScrollOffset (getCurrentBufferData custom False ob)"

definition setCursorPos ::
  "'h WinAPI \<Rightarrow> bool \<Rightarrow> COORD \<Rightarrow> 'h \<times> OutputBuffer \<Rightarrow> bool \<times> 'h \<times> OutputBuffer" where
  \<comment> \<open>Console.cpp, 207 to 211\<close>
  "setCursorPos api custom cursorPos w =
     (let (ok, h') = SetConsoleCursorPosition api (getBufferHandle custom (snd w)) cursorPos (fst w)
      in (ok, h', snd w))"

definition saveCursorPosAt :: "bool \<Rightarrow> COORD \<Rightarrow> OutputBuffer \<Rightarrow> bool \<times> OutputBuffer" where
  \<comment> \<open>Console.cpp, 218 to 227; the \<open>push_back\<close> is taken to succeed\<close>
  "saveCursorPosAt custom cursorPos ob =
     (let bd = getCurrentBufferData custom False ob
      in (True, setCurrentBufferData (bd\<lparr>savedCursors := savedCursors bd @ [cursorPos]\<rparr>) ob))"

definition saveCursorPos ::
  "'h WinAPI \<Rightarrow> bool \<Rightarrow> 'h \<times> OutputBuffer \<Rightarrow> bool \<times> 'h \<times> OutputBuffer" where
  \<comment> \<open>Console.cpp, 213 to 217\<close>
  "saveCursorPos api custom w =
     (let (ok, ob') = saveCursorPosAt custom (getCursorPos api custom w) (snd w)
      in (ok, fst w, ob'))"

definition restoreSavedCursorPos ::
  "'h WinAPI \<Rightarrow> bool \<Rightarrow> 'h \<times> OutputBuffer \<Rightarrow> COORD option \<times> 'h \<times> OutputBuffer" where
  \<comment> \<open>Console.cpp, 229 to 243\<close>
  "restoreSavedCursorPos api custom w =
     (let bufferData = getCurrentBufferData custom False (snd w)
      in if savedCursors bufferData \<noteq> []
         then (let restoredCursorPos = last (savedCursors bufferData);
                   ob' = setCurrentBufferData
                           (bufferData\<lparr>savedCursors := butlast (savedCursors bufferData)\<rparr>) (snd w);
                   (ok, w') = setCursorPos api custom restoredCursorPos (fst w, ob')
               in (Some restoredCursorPos, w'))
         else (None, w))"

subsection \<open>\<open>print\<close>: the loop over the characters (Console.cpp, 331 to 449)\<close>

record print_locals =
  bufferData :: BufferData
  newlineCount :: short
  strLength :: "32 word"
  strPos :: nat
  currentCursorPos :: COORD
  termSeqLength :: nat
  isDetectedTerminalSequence :: bool
  termSeqEndPos :: nat
  atEndOfBuffer :: "bool option"

definition detect_sequence :: "wstring \<Rightarrow> print_locals \<Rightarrow> print_locals" where
  \<comment> \<open>lines 332 to 343; \<open>rest\<close> is the text from \<open>str[strPos]\<close> on\<close>
  "detect_sequence rest l =
     (let l1 = (if isDetectedTerminalSequence l \<and> strPos l > termSeqEndPos l
                then l\<lparr>isDetectedTerminalSequence := False\<rparr> else l)
      in if hd rest = VIRTUAL_TERMINAL_SEQUENCE_ESCAPE
         then (case TERMINAL_SEQUENCE_REGEX rest of
                 Some n \<Rightarrow> l1\<lparr>isDetectedTerminalSequence := True,
                               termSeqEndPos := strPos l1 + n - 1\<rparr>
               | None \<Rightarrow> l1)
         else l1)"

definition populate_lines :: "nat \<Rightarrow> BufferData \<Rightarrow> BufferData" where
  \<comment> \<open>lines 350 to 353\<close>
  "populate_lines y bd =
     (let n = Suc y - length (contents bd)
      in bd\<lparr>contents := contents bd @ replicate n [],
             contentsCursorData := contentsCursorData bd @ replicate n []\<rparr>)"

fun fill_cursor_data :: "nat \<Rightarrow> size_t list \<Rightarrow> size_t list" where
  \<comment> \<open>lines 370 to 376, the argument counting the pushes still to do\<close>
  "fill_cursor_data 0 cd = cd"
| "fill_cursor_data (Suc n) cd =
     fill_cursor_data n (cd @ [if cd \<noteq> [] then last cd + 1 else 0])"

definition populate_columns :: "nat \<Rightarrow> wstring \<times> size_t list \<Rightarrow> wstring \<times> size_t list" where
  \<comment> \<open>lines 365 to 376\<close>
  "populate_columns x lc =
     (let (line, cd) = lc;
          line1 = line @ replicate (x - length line) 0x20;
          cd1 = cd @ map of_nat [length line ..< x]
      in (line1, fill_cursor_data (x - length cd1) cd1))"

definition append_char ::
  "bool \<Rightarrow> wchar_t \<Rightarrow> wstring \<times> size_t list \<Rightarrow> wstring \<times> size_t list" where
  \<comment> \<open>lines 380 to 387: the cursor is at the end of the recorded line\<close>
  "append_char isDetected currentChar lc =
     (let (line, cd) = lc;
          cd1 = (if \<not> isDetected then cd @ [of_nat (length line)] else cd);
          line1 = (if currentChar \<noteq> 0x0A then line @ [currentChar] else line)
      in (line1, cd1))"

definition overwrite_char ::
  "nat \<Rightarrow> nat \<Rightarrow> wchar_t \<Rightarrow> wstring \<times> size_t list \<Rightarrow> error + wstring \<times> size_t list" where
  \<comment> \<open>lines 390 to 421: the cursor is before the end of the recorded line; \<open>x\<close> is
      \<open>currentCursorPos.X\<close>, which is not negative here\<close>
  "overwrite_char x termSeqLen currentChar lc =
     (let (line, cd) = lc
      in if length cd \<le> x then Inl undefined_behaviour
         else
           (let startPos = (if x > 0 then cd ! (x - 1) else 0);
                sequenceLength = cd ! x - startPos;
                erased =
                  (if 1 < sequenceLength
                   then (if length line < unat startPos then Inl out_of_range
                         else Inr (take (unat startPos) line
                                     @ drop (unat startPos + unat sequenceLength) line,
                                   take (unat startPos) cd
                                     @ map (\<lambda>v. v - sequenceLength) (drop (unat startPos) cd)))
                   else if Suc x = length cd
                   then (if unat (last cd) < length line
                         then Inr (take (unat (last cd) + 1) line, cd)
                         else Inr (line, cd))
                   else Inr (line, cd))
            in and_then erased (\<lambda>(line1, cd1).
                 if currentChar \<noteq> 0x0A
                 then (let i = unat (cd1 ! x + of_nat termSeqLen)
                       in if i < length line1 then Inr (line1[i := currentChar], cd1)
                          else Inl undefined_behaviour)
                 else Inr (line1, cd1))))"

definition advance_cursor :: "short \<Rightarrow> wchar_t \<Rightarrow> print_locals \<Rightarrow> print_locals" where
  \<comment> \<open>lines 423 to 441; \<open>width\<close> is \<open>bufferInfo.dwMaximumWindowSize.X\<close>\<close>
  "advance_cursor width currentChar l =
     (let p = currentCursorPos l
      in if currentChar \<noteq> 0x0A
         then (if \<not> isDetectedTerminalSequence l
               then (let p1 = p\<lparr>X := X p + 1\<rparr>
                     in l\<lparr>currentCursorPos :=
                            (if X p1 = width then p1\<lparr>X := 0, Y := Y p1 + 1\<rparr> else p1),
                          termSeqLength := 0\<rparr>)
               else l\<lparr>termSeqLength := termSeqLength l + 1\<rparr>)
         else l\<lparr>currentCursorPos := p\<lparr>X := 0, Y := Y p + 1\<rparr>, termSeqLength := 0\<rparr>)"

definition add_to_buffer :: "short \<Rightarrow> short \<Rightarrow> wchar_t \<Rightarrow> print_locals \<Rightarrow> error + print_locals" where
  \<comment> \<open>lines 345 to 443; \<open>originY\<close> is \<open>getCurrentBufferData(true).cursorStartPos.Y\<close>\<close>
  "add_to_buffer originY width currentChar l =
     (let cursorYPos = Y (currentCursorPos l) - originY
      in if sint cursorYPos < 0 then Inl bad_alloc
         else
           (let y = unat cursorYPos;
                bd = populate_lines y (bufferData l)
            in if length (contentsCursorData bd) \<le> y then Inl undefined_behaviour
               else
                 (let line = contents bd ! y;
                      cd = contentsCursorData bd ! y;
                      atEnd = (case atEndOfBuffer l of
                                 None \<Rightarrow> (of_nat (length cd) :: size_t)
                                            \<le> scast (X (currentCursorPos l)) + 1
                               | Some b \<Rightarrow> b)
                  in if sint (X (currentCursorPos l)) < 0 then Inl bad_alloc
                     else
                       (let x = unat (X (currentCursorPos l));
                            lc = populate_columns x (line, cd)
                        in and_then
                             (if atEnd
                              then Inr (append_char (isDetectedTerminalSequence l) currentChar lc)
                              else overwrite_char x (termSeqLength l) currentChar lc)
                             (\<lambda>(line1, cd1).
                                Inr (advance_cursor width currentChar
                                       (l\<lparr>bufferData :=
                                             bd\<lparr>contents := (contents bd)[y := line1],
                                                contentsCursorData :=
                                                  (contentsCursorData bd)[y := cd1]\<rparr>,
                                           atEndOfBuffer := Some atEnd\<rparr>)))))))"

definition print_char ::
  "bool \<Rightarrow> short \<Rightarrow> short \<Rightarrow> wstring \<Rightarrow> print_locals \<Rightarrow> error + print_locals" where
  \<comment> \<open>one turn of the loop, on the text \<open>rest\<close> from \<open>str[strPos]\<close> on (not empty)\<close>
  "print_char addToBuffer originY width rest l =
     (let currentChar = hd rest;
          l1 = detect_sequence rest l
      in and_then (if addToBuffer then add_to_buffer originY width currentChar l1 else Inr l1)
           (\<lambda>l2. Inr (l2\<lparr>newlineCount :=
                             (if currentChar = 0x0A then newlineCount l2 + 1 else newlineCount l2),
                          strLength := strLength l2 + 1,
                          strPos := strPos l2 + 1\<rparr>)))"

fun print_loop ::
  "bool \<Rightarrow> short \<Rightarrow> short \<Rightarrow> wstring \<Rightarrow> print_locals \<Rightarrow> error + print_locals" where
  "print_loop addToBuffer originY width [] l = Inr l"
| "print_loop addToBuffer originY width (c # cs) l =
     and_then (print_char addToBuffer originY width (c # cs) l)
       (print_loop addToBuffer originY width cs)"

subsection \<open>\<open>print\<close>: the physical write and the scroll bookkeeping (Console.cpp, 451 to 480)\<close>

definition writeToConsole :: "'h WinAPI \<Rightarrow> HANDLE \<Rightarrow> wstring \<Rightarrow> 32 word \<Rightarrow> 'h \<Rightarrow> 'h" where
  \<comment> \<open>the lambda of lines 314 to 327\<close>
  "writeToConsole api hdl str len h =
     (if len = 0 then h else WriteConsoleW api hdl (take (unat len) str) h)"

definition scroll_bookkeeping :: "bool \<Rightarrow> short \<Rightarrow> OutputBuffer \<Rightarrow> OutputBuffer" where
  \<comment> \<open>lines 461 to 474\<close>
  "scroll_bookkeeping custom scrolledLines ob =
     (if 0 < sint scrolledLines
         \<and> 0 < sint (Y (cursorStartPos (getCurrentBufferData custom True ob)))
      then
        (let bd = getCurrentBufferData custom False ob;
             ob1 = setCurrentBufferData
                     (bd\<lparr>cursorScrollOffset := cursorScrollOffset bd + scrolledLines\<rparr>) ob;
             ob2 = (if custom
                    then ob1\<lparr>mainBufferData := (mainBufferData ob1)
                            \<lparr>cursorStartPos := (cursorStartPos (mainBufferData ob1))
                               \<lparr>Y := max_short
                                       (Y (cursorStartPos (mainBufferData ob1)) - scrolledLines) 0\<rparr>\<rparr>\<rparr>
                    else ob1);
             bd2 = getCurrentBufferData custom False ob2
         in setCurrentBufferData
              (bd2\<lparr>savedCursors :=
                     map (\<lambda>savedCursorPos.
                            savedCursorPos\<lparr>Y := max_short (Y savedCursorPos - scrolledLines) 0\<rparr>)
                         (savedCursors bd2)\<rparr>) ob2)
      else ob)"

definition print_finish ::
  "'h WinAPI \<Rightarrow> bool \<Rightarrow> wstring \<Rightarrow> 'h \<times> OutputBuffer \<Rightarrow> print_locals \<Rightarrow> 'h \<times> OutputBuffer" where
  \<comment> \<open>lines 451 to 480, with the locals \<open>l\<close> the loop has left\<close>
  "print_finish api custom s w l =
     (let ob1 = setCurrentBufferData (bufferData l) (snd w);
          h1 = writeToConsole api (getBufferHandle custom ob1) s (strLength l) (fst w)
      in if 0 < sint (newlineCount l)
         then (let initialCursorPos = getCursorPos api custom (fst w, ob1);
                   finalCursorPos = getCursorPos api custom (h1, ob1);
                   scrolledLines = newlineCount l - (Y finalCursorPos - Y initialCursorPos)
               in (h1, scroll_bookkeeping custom scrolledLines ob1))
         else (h1, ob1))"

definition print_start :: "'h WinAPI \<Rightarrow> bool \<Rightarrow> 'h \<times> OutputBuffer \<Rightarrow> print_locals" where
  \<comment> \<open>the locals of lines 297 to 306\<close>
  "print_start api custom w =
     \<lparr>bufferData = getCurrentBufferData custom False (snd w),
      newlineCount = 0, strLength = 0, strPos = 0,
      currentCursorPos = getCursorPos api custom w,
      termSeqLength = 0, isDetectedTerminalSequence = False,
      termSeqEndPos = 0, atEndOfBuffer = None\<rparr>"

definition print ::
  "'h WinAPI \<Rightarrow> bool \<Rightarrow> wstring \<Rightarrow> bool \<Rightarrow> 'h \<times> OutputBuffer \<Rightarrow> error + 'h \<times> OutputBuffer" where
  \<comment> \<open>Console.cpp, 283 to 484; the text is read up to its terminating \<open>L'\0'\<close>\<close>
  "print api custom str addToBuffer w =
     (let s = takeWhile (\<lambda>c. c \<noteq> 0) str;
          bufferInfo = GetConsoleScreenBufferInfo api
                         (handle (getCurrentBufferData custom False (snd w))) (fst w)
      in and_then
           (print_loop addToBuffer
              (Y (cursorStartPos (getCurrentBufferData custom True (snd w))))
              (X (dwMaximumWindowSize bufferInfo)) s (print_start api custom w))
           (\<lambda>l. Inr (print_finish api custom s w l)))"

definition println :: "'h WinAPI \<Rightarrow> bool \<Rightarrow> bool \<Rightarrow> 'h \<times> OutputBuffer \<Rightarrow> error + 'h \<times> OutputBuffer" where
  \<comment> \<open>Console.h, 391 to 408\<close>
  "println api custom addToBuffer w = print api custom [0x0A] addToBuffer w"

subsection \<open>Clearing, cursor visibility and alternate buffers\<close>

definition synchronizeCursorVisibility ::
  "'h WinAPI \<Rightarrow> bool \<Rightarrow> bool \<Rightarrow> bool \<Rightarrow> 'h \<times> OutputBuffer \<Rightarrow> error + 'h \<times> OutputBuffer" where
  \<comment> \<open>Console.cpp, 515 to 520\<close>
  "synchronizeCursorVisibility api custom cursorVisible addToBuffer w =
     print api custom
       (getVirtualTerminalSequence (if cursorVisible then L ''[?25h'' else L ''[?25l''))
       addToBuffer w"

definition toggleCursorVisibility ::
  "'h WinAPI \<Rightarrow> bool \<Rightarrow> bool \<Rightarrow> 'h \<times> OutputBuffer \<Rightarrow> error + 'h \<times> OutputBuffer" where
  \<comment> \<open>Console.cpp, 250 to 259\<close>
  "toggleCursorVisibility api custom cursorVisible w =
     (if cursorVisible \<noteq> cursorIsVisible (getCurrentBufferData custom False (snd w))
      then and_then (synchronizeCursorVisibility api custom cursorVisible True w)
             (\<lambda>(h1, ob1). Inr (h1, setCurrentBufferData
                ((getCurrentBufferData custom False ob1)\<lparr>cursorIsVisible := cursorVisible\<rparr>) ob1))
      else Inr w)"

definition clear ::
  "'h WinAPI \<Rightarrow> bool \<Rightarrow> bool \<Rightarrow> bool \<Rightarrow> 'h \<times> OutputBuffer \<Rightarrow> error + 'h \<times> OutputBuffer" where
  \<comment> \<open>Console.cpp, 263 to 281\<close>
  "clear api custom clearBuffer resetCursorPos w =
     (let (h, ob) = w;
          ob1 = (if clearBuffer
                 then setCurrentBufferData
                        ((getCurrentBufferData custom False ob)
                           \<lparr>contents := [], contentsCursorData := []\<rparr>) ob
                 else ob);
          w2 = (if resetCursorPos
                then snd (setCursorPos api custom
                            (if custom then cursorStartPos (getCurrentBufferData custom True ob1)
                             else \<lparr>X = 0, Y = 0\<rparr>)
                            (h, ob1))
                else (h, ob1))
      in print api custom (getVirtualTerminalSequence (L ''[0J'')) False w2)"

definition new_BufferData :: "HANDLE \<Rightarrow> BufferData" where
  \<comment> \<open>\<open>BufferData { .handle = ... }\<close> with the default member initialisers of Console.h\<close>
  "new_BufferData hdl =
     \<lparr>handle = hdl, contents = [], contentsCursorData = [], savedCursors = [],
      cursorStartPos = \<lparr>X = 0, Y = 0\<rparr>, cursorScrollOffset = 0, cursorIsVisible = True\<rparr>"




section \<open>The menu: \<open>Console::MenuOptionList\<close>\<close>

record MenuOptionPadding =
  padding_top :: bool
  padding_left :: bool
  padding_right :: bool
  padding_bottom :: bool

record MenuOption =
  option :: wstring
  hotkey :: "wchar_t option"
  disabled :: bool
  padding :: MenuOptionPadding

text \<open>
  \<open>Console::MenuOptionList\<close> (Console.h, 2124 to 2179): the vector of options it extends is
  the field \<open>options\<close>. \<open>size_t\<close> indices are natural numbers, \<open>std::time_t\<close> is an integer.
  The list of action callbacks is not a field here: \<open>waitForSelection\<close> takes it as an
  argument.
\<close>

record MenuOptionList =
  options :: "MenuOption list"
  prefix :: wstring
  suffix :: wstring
  separator :: wstring
  width :: "16 word"
  maxMenuOptionLines :: "16 word"
  menuCursorStartPos :: "COORD option"
  selectedOptionNum :: "nat option"
  topMenuOptionNum :: nat
  bottomMenuOptionNum :: nat
  statusMessage :: wstring
  statusMessageIssueTime :: int

definition MAX_MENU_OPTION_LINES :: "16 word" where
  \<comment> \<open>Console.h, 115\<close>
  "MAX_MENU_OPTION_LINES = 9"

definition new_MenuOptionList :: "MenuOption list \<Rightarrow> MenuOptionList" where
  \<comment> \<open>the constructor of Console.cpp, 914 to 929, with its default arguments\<close>
  "new_MenuOptionList initList =
     \<lparr>options = initList, prefix = [], suffix = [], separator = [], width = 0,
      maxMenuOptionLines = MAX_MENU_OPTION_LINES, menuCursorStartPos = None,
      selectedOptionNum = None, topMenuOptionNum = 0, bottomMenuOptionNum = 0,
      statusMessage = [], statusMessageIssueTime = 0\<rparr>"

subsection \<open>Status messages (Console.cpp, 1036 to 1075)\<close>

definition STATUS_MESSAGE_LIFETIME :: int where
  \<comment> \<open>Console.h, 2121\<close>
  "STATUS_MESSAGE_LIFETIME = 5"

definition difftime :: "int \<Rightarrow> int \<Rightarrow> int" where
  \<comment> \<open>\<open>std::difftime(end, beginning)\<close>, in seconds; the difference of two timestamps in
      seconds is a whole number that a \<open>double\<close> holds exactly\<close>
  "difftime time_end time_beginning = time_end - time_beginning"

definition hasActiveStatusMessage :: "MenuOptionList \<Rightarrow> bool" where
  "hasActiveStatusMessage m \<longleftrightarrow> 0 < statusMessageIssueTime m"

definition hasExpiredStatusMessage :: "int \<Rightarrow> MenuOptionList \<Rightarrow> bool \<times> MenuOptionList" where
  \<comment> \<open>\<open>currentTime\<close> is what \<open>std::time\<close> answers\<close>
  "hasExpiredStatusMessage currentTime m =
     (if 0 < statusMessageIssueTime m
      then (let result = (STATUS_MESSAGE_LIFETIME < difftime currentTime (statusMessageIssueTime m))
            in (result, if result then m\<lparr>statusMessageIssueTime := 0\<rparr> else m))
      else (False, m))"

definition setStatusMessage :: "wstring \<Rightarrow> MenuOptionList \<Rightarrow> MenuOptionList" where
  "setStatusMessage message m = m\<lparr>statusMessage := message\<rparr>"

definition issueStatusMessage :: "int \<Rightarrow> MenuOptionList \<Rightarrow> bool \<times> MenuOptionList" where
  \<comment> \<open>\<open>currentTime\<close> is what \<open>std::time\<close> answers\<close>
  "issueStatusMessage currentTime m =
     (if statusMessage m \<noteq> []
      then (True, m\<lparr>statusMessage := [], statusMessageIssueTime := currentTime\<rparr>)
      else (False, m))"

subsection \<open>Keys and the input side of the console\<close>

text \<open>
  \<open>WinConsoleInputKey\<close> is the Windows \<open>KEY_EVENT_RECORD\<close>, of which the menu reads the
  virtual key code and the character. \<open>Console::InputBuffer::waitForInput\<close> (Console.cpp,
  534 to 592) answers the next key-down event of the console's input queue, or nothing
  when the wait times out, and \<open>std::time\<close> answers the clock: both are functions of the
  console, taken as given like the rest of its API.
\<close>

record WinConsoleInputKey =
  wVirtualKeyCode :: "16 word"
  UnicodeChar :: wchar_t

record 'h InputAPI =
  waitForInput :: "bool \<Rightarrow> 32 word \<Rightarrow> 'h \<Rightarrow> WinConsoleInputKey option \<times> 'h"
  time :: "'h \<Rightarrow> int"

definition VK_RETURN :: "16 word" where
  "VK_RETURN = 0x0D"

definition VK_ESCAPE :: "16 word" where
  "VK_ESCAPE = 0x1B"

definition VK_UP :: "16 word" where
  "VK_UP = 0x26"

definition VK_DOWN :: "16 word" where
  "VK_DOWN = 0x28"

definition towlower :: "wchar_t \<Rightarrow> wchar_t" where
  \<comment> \<open>\<open>std::towlower\<close> in the C locale\<close>
  "towlower c = (if 0x41 \<le> c \<and> c \<le> 0x5A then c + 0x20 else c)"

subsection \<open>Selection and viewport (Console.cpp, 665 to 673, 995 to 1034, 1079 to 1142)\<close>

definition getTotalLineCount :: "MenuOption \<Rightarrow> 16 word" where
  "getTotalLineCount menuOption =
     1 + (if padding_top (padding menuOption) then 1 else 0)
       + (if padding_bottom (padding menuOption) then 1 else 0)"

definition isValidOption :: "nat \<Rightarrow> MenuOptionList \<Rightarrow> bool" where
  "isValidOption menuOptionNum m \<longleftrightarrow> menuOptionNum < length (options m)"

definition setSelectedOption :: "nat \<Rightarrow> MenuOptionList \<Rightarrow> MenuOptionList" where
  "setSelectedOption menuOptionNum m =
     (if isValidOption menuOptionNum m then m\<lparr>selectedOptionNum := Some menuOptionNum\<rparr> else m)"

definition setTopMenuOptionNum :: "nat \<Rightarrow> MenuOptionList \<Rightarrow> MenuOptionList" where
  "setTopMenuOptionNum menuOptionNum m =
     (if isValidOption menuOptionNum m then m\<lparr>topMenuOptionNum := menuOptionNum\<rparr> else m)"

definition setBottomMenuOptionNum :: "nat \<Rightarrow> MenuOptionList \<Rightarrow> MenuOptionList" where
  "setBottomMenuOptionNum menuOptionNum m =
     (if isValidOption menuOptionNum m then m\<lparr>bottomMenuOptionNum := menuOptionNum\<rparr> else m)"

definition size_minus_one :: "nat \<Rightarrow> nat" where
  \<comment> \<open>\<open>menuOptions.size() - 1ULL\<close>, which wraps for an empty list\<close>
  "size_minus_one n = (if n = 0 then 2 ^ 64 - 1 else n - 1)"

definition sub_size_t :: "nat \<Rightarrow> nat \<Rightarrow> nat" where
  \<comment> \<open>the difference of two \<open>size_t\<close>\<close>
  "sub_size_t a b = (a + 2 ^ 64 - b) mod 2 ^ 64"

definition MenuOptionList_getCursorPos :: "nat \<Rightarrow> MenuOptionList \<Rightarrow> error + COORD option" where
  \<comment> \<open>\<open>MenuOptionList::getCursorPos\<close>, Console.cpp 1079 to 1111\<close>
  "MenuOptionList_getCursorPos menuOptionNum m =
     (case menuCursorStartPos m of
        None \<Rightarrow> Inr None
      | Some start \<Rightarrow>
          if menuOptionNum < length (options m)
          then (if length (options m) \<le> topMenuOptionNum m then Inl undefined_behaviour
                else
                  (let menuOption = options m ! menuOptionNum;
                       y1 = Y start + sum_list (map (\<lambda>i. getTotalLineCount (options m ! i))
                                                    [topMenuOptionNum m ..< menuOptionNum]);
                       y2 = (if topMenuOptionNum m > 0 then y1 + 1 else y1);
                       y3 = (if padding_top (padding menuOption) then y2 + 1 else y2);
                       y4 = (if padding_top (padding (options m ! topMenuOptionNum m))
                             then y3 - 1 else y3)
                   in Inr (Some \<lparr>X = (if padding_left (padding menuOption)
                                        then X start + 3 else X start),
                                   Y = y4\<rparr>)))
          else Inr None)"

subsection \<open>Drawing the menu (Console.cpp, 954 to 964, 1113 to 1134, 1218 to 1356)\<close>

text \<open>
  \<open>std::format\<close> pads a field on the right with spaces up to its width, counted here in
  characters; a width given as an \<open>unsigned int\<close> that has wrapped below zero is beyond
  what \<open>std::format\<close> accepts and is the error \<open>format_error\<close>.
\<close>

definition pad_right :: "nat \<Rightarrow> wstring \<Rightarrow> wstring" where
  "pad_right n s = s @ replicate (n - length s) 0x20"

function to_wstring :: "nat \<Rightarrow> wstring" where
  "to_wstring n =
     (if n < 10 then [0x30 + of_nat n] else to_wstring (n div 10) @ [0x30 + of_nat (n mod 10)])"
  by pat_completeness auto
termination
  by (relation "measure id") auto

declare to_wstring.simps [simp del]

definition ARROW_UP :: wchar_t where
  "ARROW_UP = 0x2191"

definition ARROW_DOWN :: wchar_t where
  "ARROW_DOWN = 0x2193"

definition getSpace :: "MenuOptionList \<Rightarrow> wstring" where
  "getSpace m = prefix m @ pad_right (unat (width m)) [] @ suffix m"

definition getInstructionString :: "wstring list \<Rightarrow> MenuOptionList \<Rightarrow> wstring" where
  \<comment> \<open>\<open>instructions\<close> are the instruction lines of the actions of the list, in order\<close>
  "getInstructionString instructions m =
     separator m @ [0x0A]
       @ concat (map (\<lambda>instruction.
                        prefix m @ L '' - '' @ pad_right (unat (width m - 4)) instruction
                          @ L '' '' @ suffix m @ [0x0A]) instructions)
       @ separator m"

definition print_arrow ::
  "'h WinAPI \<Rightarrow> bool \<Rightarrow> wchar_t \<Rightarrow> wstring \<Rightarrow> wstring \<Rightarrow> 16 word \<Rightarrow> 'h \<times> OutputBuffer
     \<Rightarrow> error + 'h \<times> OutputBuffer" where
  \<comment> \<open>lines 1283 to 1285 and 1332 to 1334; \<open>w\<close> is the width of the list\<close>
  "print_arrow api custom arrow pre suf w world =
     and_then (print api custom pre True world)
       (\<lambda>w1. if w < 2 then Inl format_error
              else and_then (print api custom (L ''  '' @ pad_right (unat (w - 2)) [arrow]) True w1)
                     (print api custom suf True))"

definition printMenuOption ::
  "'h WinAPI \<Rightarrow> bool \<Rightarrow> MenuOption \<Rightarrow> 16 word \<Rightarrow> 16 word \<Rightarrow> 'h \<times> OutputBuffer
     \<Rightarrow> error + 'h \<times> OutputBuffer" where
  \<comment> \<open>Console.cpp, 1218 to 1240\<close>
  "printMenuOption api custom menuOption optionNum w world =
     and_then (if disabled menuOption
               then print api custom (getVirtualTerminalSequence (L ''[90m'')) True world
               else Inr world)
       (\<lambda>w1. and_then
                (print api custom
                   (pad_right (unat w)
                      ((case hotkey menuOption of
                          Some c \<Rightarrow> [c]
                        | None \<Rightarrow> to_wstring (unat optionNum))
                       @ L '') '' @ option menuOption)) True w1)
                (\<lambda>w2. if disabled menuOption
                       then print api custom (getVirtualTerminalSequence (L ''[39m'')) True w2
                       else Inr w2))"

record menu_rows =
  menuOptionLines :: "16 word"
  bottomNum :: nat
  currentOptionHotkeyNum :: "16 word"

definition print_row ::
  "'h WinAPI \<Rightarrow> bool \<Rightarrow> MenuOptionList \<Rightarrow> wstring \<Rightarrow> nat \<Rightarrow> 16 word \<Rightarrow> nat
     \<Rightarrow> menu_rows \<times> 'h \<times> OutputBuffer \<Rightarrow> error + menu_rows \<times> 'h \<times> OutputBuffer" where
  \<comment> \<open>one turn of the loop of lines 1290 to 1325, past its \<open>break\<close>, for the option \<open>i\<close>;
      \<open>suf\<close> is the suffix ended by a line feed\<close>
  "print_row api custom m suf selected maxMenuLines i st =
     (if length (options m) \<le> i then Inl undefined_behaviour
      else
        (let menuOption = options m ! i;
             spaceLine = (\<lambda>(r, world).
                and_then (print api custom (getSpace m) True world)
                  (\<lambda>w1. and_then (println api custom True w1)
                           (\<lambda>w2. Inr (r\<lparr>menuOptionLines := menuOptionLines r + 1\<rparr>, w2))))
         in and_then
              (if padding_top (padding menuOption) \<and> topMenuOptionNum m < i
                    \<and> menuOptionLines (fst st) < maxMenuLines
               then spaceLine st else Inr st)
              (\<lambda>(r1, world1).
                 and_then
                   (if menuOptionLines r1 < maxMenuLines
                    then and_then (print api custom (prefix m) True world1)
                      (\<lambda>w1. and_then (print api custom
                                         [if i \<noteq> selected then 0x20 else 0x3E] True w1)
                      (\<lambda>w2. and_then (print api custom [0x20] True w2)
                      (\<lambda>w3. and_then (printMenuOption api custom menuOption
                                         (currentOptionHotkeyNum r1) (width m - 2) w3)
                      (\<lambda>w4. and_then (print api custom suf True w4)
                      (\<lambda>w5. Inr
                         (r1\<lparr>currentOptionHotkeyNum :=
                                (if hotkey menuOption = None then currentOptionHotkeyNum r1 + 1
                                 else currentOptionHotkeyNum r1),
                              menuOptionLines := menuOptionLines r1 + 1,
                              bottomNum := (if i \<noteq> topMenuOptionNum m then bottomNum r1 + 1
                                            else bottomNum r1)\<rparr>, w5))))))
                    else Inr (r1, world1))
                   (\<lambda>(r2, world2).
                      if padding_bottom (padding menuOption) \<and> menuOptionLines r2 < maxMenuLines
                      then spaceLine (r2, world2) else Inr (r2, world2)))))"

fun print_rows ::
  "'h WinAPI \<Rightarrow> bool \<Rightarrow> MenuOptionList \<Rightarrow> wstring \<Rightarrow> nat \<Rightarrow> 16 word \<Rightarrow> nat list
     \<Rightarrow> menu_rows \<times> 'h \<times> OutputBuffer \<Rightarrow> error + menu_rows \<times> 'h \<times> OutputBuffer" where
  \<comment> \<open>the loop of lines 1290 to 1325 over the options still to visit\<close>
  "print_rows api custom m suf selected maxMenuLines [] st = Inr st"
| "print_rows api custom m suf selected maxMenuLines (i # rest) st =
     (if maxMenuLines \<le> menuOptionLines (fst st) then Inr st
      else and_then (print_row api custom m suf selected maxMenuLines i st)
             (print_rows api custom m suf selected maxMenuLines rest))"

definition printMenuOptions ::
  "'h WinAPI \<Rightarrow> bool \<Rightarrow> wstring list \<Rightarrow> bool \<Rightarrow> MenuOptionList \<times> 'h \<times> OutputBuffer
     \<Rightarrow> error + MenuOptionList \<times> 'h \<times> OutputBuffer" where
  \<comment> \<open>Console.cpp, 1242 to 1356\<close>
  "printMenuOptions api custom instructions printInstructions mw =
     (let (m, world) = mw;
          selected = (case selectedOptionNum m of Some s \<Rightarrow> s | None \<Rightarrow> 0);
          initialScrollOffset = getCursorScrollOffset custom (snd world);
          maxMenuLines = (if selected < size_minus_one (length (options m))
                          then maxMenuOptionLines m - 1 else maxMenuOptionLines m);
          m1 = (if menuCursorStartPos m = None
                then (let p = getCursorPos api custom world
                      in m\<lparr>menuCursorStartPos := Some (p\<lparr>X := X p + 2\<rparr>)\<rparr>)
                else m);
          suf = (if suffix m \<noteq> [] \<and> last (suffix m) = 0x0A then suffix m
                 else suffix m @ [0x0A])
      in and_then
           (if topMenuOptionNum m > 0
            then and_then (print_arrow api custom ARROW_UP (prefix m) suf (width m) world)
                   (\<lambda>w1. Inr (1, w1))
            else Inr (0, world))
           (\<lambda>(lines0, w1).
              and_then
                (print_rows api custom m1 suf selected maxMenuLines
                   [topMenuOptionNum m ..< length (options m)]
                   (\<lparr>menuOptionLines = lines0, bottomNum = topMenuOptionNum m,
                     currentOptionHotkeyNum = 1\<rparr>, w1))
                (\<lambda>(r, w2).
                   let m2 = setBottomMenuOptionNum (bottomNum r) m1
                   in and_then
                        (if bottomNum r < size_minus_one (length (options m))
                         then print_arrow api custom ARROW_DOWN (prefix m) suf (width m) w2
                         else Inr w2)
                        (\<lambda>w3. and_then
                                 (if printInstructions
                                  then print api custom (getInstructionString instructions m2) True w3
                                  else Inr w3)
                                 (\<lambda>w4.
                                    let finalScrollOffset = getCursorScrollOffset custom (snd w4)
                                    in if sint initialScrollOffset < sint finalScrollOffset
                                       then (case menuCursorStartPos m2 of
                                               Some p \<Rightarrow>
                                                 Inr (m2\<lparr>menuCursorStartPos :=
                                                            Some \<lparr>X = X p,
                                                                  Y = max_short
                                                                        (Y p - (finalScrollOffset
                                                                                  - initialScrollOffset))
                                                                        0\<rparr>\<rparr>, w4)
                                             | None \<Rightarrow> Inr (m2, w4))
                                       else Inr (m2, w4))))))"

subsection \<open>The default actions (Console.cpp, 692 to 895)\<close>

definition arrow_step :: "bool \<Rightarrow> nat \<Rightarrow> nat \<times> bool \<times> bool \<Rightarrow> nat \<times> bool \<times> bool" where
  \<comment> \<open>the body of the \<open>do\<close> loop, lines 716 to 731; \<open>n\<close> is \<open>menuOptions.size()\<close>\<close>
  "arrow_step down n st =
     (if down
      then (if fst st < size_minus_one n then (fst st + 1, True, False) else st)
      else (if fst st > 0 then (fst st - 1, True, False) else st))"

function arrow_move ::
  "bool \<Rightarrow> MenuOption list \<Rightarrow> nat \<times> bool \<times> bool \<Rightarrow> error + nat \<times> bool \<times> bool" where
  \<comment> \<open>the \<open>do\<close> ... \<open>while\<close> of lines 715 to 733\<close>
  "arrow_move down opts st =
     (if length opts \<le> fst (arrow_step down (length opts) st) then Inl undefined_behaviour
      else if disabled (opts ! fst (arrow_step down (length opts) st))
              \<and> fst (arrow_step down (length opts) st) > 0
              \<and> fst (arrow_step down (length opts) st) < size_minus_one (length opts)
      then arrow_move down opts (arrow_step down (length opts) st)
      else Inr (arrow_step down (length opts) st))"
  by pat_completeness auto
termination
  by (relation "measure (\<lambda>(down, opts, st). if down then length opts - fst st else fst st)")
     (auto simp add: arrow_step_def size_minus_one_def split: if_splits)

declare arrow_move.simps [simp del]

function digit_walk :: "MenuOption list \<Rightarrow> nat \<Rightarrow> nat \<Rightarrow> nat \<Rightarrow> nat" where
  \<comment> \<open>the \<open>for\<close> loop of lines 744 to 753, from the counter \<open>i\<close> on\<close>
  "digit_walk opts numberKey i newSelectionNum =
     (if newSelectionNum < length opts \<and> i < numberKey
      then (if hotkey (opts ! newSelectionNum) \<noteq> None
            then digit_walk opts numberKey (i + 1) newSelectionNum
            else digit_walk opts numberKey (i + 1) (newSelectionNum + 1))
      else newSelectionNum)"
  by pat_completeness auto
termination
  by (relation "measure (\<lambda>(opts, numberKey, i, newSelectionNum). numberKey - i)") auto

declare digit_walk.simps [simp del]

fun hotkey_search :: "wchar_t \<Rightarrow> MenuOption list \<Rightarrow> nat \<Rightarrow> nat option" where
  \<comment> \<open>the \<open>for\<close> loop of lines 766 to 776 over the options from index \<open>i\<close> on\<close>
  "hotkey_search keyChar [] i = None"
| "hotkey_search keyChar (menuOption # rest) i =
     (if hotkey menuOption = Some keyChar \<and> \<not> disabled menuOption then Some i
      else hotkey_search keyChar rest (i + 1))"

definition select_by_key ::
  "WinConsoleInputKey \<Rightarrow> MenuOptionList \<Rightarrow> nat \<Rightarrow> error + nat \<times> bool \<times> bool" where
  \<comment> \<open>lines 713 to 777: the new selection and the value to return\<close>
  "select_by_key key m prevSelectionNum =
     (if wVirtualKeyCode key = VK_DOWN \<or> wVirtualKeyCode key = VK_UP
      then arrow_move (wVirtualKeyCode key = VK_DOWN) (options m) (prevSelectionNum, False, False)
      else if 0x31 \<le> wVirtualKeyCode key \<and> wVirtualKeyCode key \<le> 0x39
      then (let newSelectionNum =
                  digit_walk (options m) (unat (wVirtualKeyCode key) - 0x30) 1 (topMenuOptionNum m)
            in Inr (newSelectionNum,
                    if newSelectionNum < length (options m) then (True, True) else (False, False)))
      else if UnicodeChar key \<noteq> 0
      then (case hotkey_search (towlower (UnicodeChar key)) (options m) 0 of
              Some i \<Rightarrow> Inr (i, True, True)
            | None \<Rightarrow> Inr (prevSelectionNum, False, False))
      else Inr (prevSelectionNum, False, False))"

function count_lines ::
  "MenuOption list \<Rightarrow> nat \<Rightarrow> nat \<Rightarrow> nat \<Rightarrow> 16 word \<Rightarrow> error + nat \<times> 16 word" where
  \<comment> \<open>the \<open>for\<close> loop of lines 821 to 831, from \<open>i\<close> on\<close>
  "count_lines opts newTop newSelectionNum i lineCount =
     (if i \<le> newSelectionNum
      then (if length opts \<le> i then Inl undefined_behaviour
            else
              (let c1 = lineCount + getTotalLineCount (opts ! i);
                   c2 = (if i = newTop \<and> padding_top (padding (opts ! newTop)) then c1 - 1
                         else if i = newSelectionNum
                                 \<and> padding_bottom (padding (opts ! newSelectionNum)) then c1 - 1
                         else c1)
               in if MAX_MENU_OPTION_LINES \<le> c2 then Inr (i, c2)
                  else count_lines opts newTop newSelectionNum (i + 1) c2))
      else Inr (i, lineCount))"
  by pat_completeness auto
termination
  by (relation "measure (\<lambda>(opts, newTop, newSelectionNum, i, lineCount). Suc newSelectionNum - i)")
     auto

declare count_lines.simps [simp del]

function advance_top :: "MenuOption list \<Rightarrow> nat \<Rightarrow> nat \<Rightarrow> error + nat" where
  \<comment> \<open>the \<open>while (true)\<close> of lines 815 to 837, entered with \<open>newTopMenuOptionNum = newTop\<close>;
      once the new top is past the selection the inner loop does not run and the loop
      ends\<close>
  "advance_top opts newSelectionNum newTop =
     (if newSelectionNum < newTop + 1 then Inr (newTop + 1)
      else case count_lines opts (newTop + 1) newSelectionNum (newTop + 1) 0 of
             Inl e \<Rightarrow> Inl e
           | Inr (i, lineCount) \<Rightarrow>
               if newSelectionNum < i
                  \<or> (lineCount < MAX_MENU_OPTION_LINES \<and> \<not> padding_top (padding (opts ! i)))
               then Inr (newTop + 1)
               else advance_top opts newSelectionNum (newTop + 1))"
  by pat_completeness auto
termination
  by (relation "measure (\<lambda>(opts, newSelectionNum, newTop). Suc newSelectionNum - newTop)") auto

declare advance_top.simps [simp del]

definition scroll_menu ::
  "'h WinAPI \<Rightarrow> bool \<Rightarrow> nat \<Rightarrow> nat \<Rightarrow> MenuOptionList \<times> 'h \<times> OutputBuffer
     \<Rightarrow> error + MenuOptionList \<times> 'h \<times> OutputBuffer" where
  \<comment> \<open>lines 786 to 846: the new selection is outside the viewport\<close>
  "scroll_menu api custom prevSelectionNum newSelectionNum mw =
     (let (m, world) = mw
      in case menuCursorStartPos m of
           None \<Rightarrow> Inl undefined_behaviour
         | Some start \<Rightarrow>
             (let menuStartPos = start\<lparr>X := X start - 2\<rparr>;
                  w1 = snd (saveCursorPos api custom world);
                  w2 = snd (setCursorPos api custom menuStartPos w1)
              in and_then
                   (if newSelectionNum < topMenuOptionNum m
                    then Inr (if topMenuOptionNum m > 0
                              then setTopMenuOptionNum
                                     (sub_size_t (topMenuOptionNum m)
                                        (sub_size_t prevSelectionNum newSelectionNum)) m
                              else m)
                    else if bottomMenuOptionNum m < size_minus_one (length (options m))
                    then and_then (advance_top (options m) newSelectionNum (topMenuOptionNum m))
                           (\<lambda>newTop. Inr (setTopMenuOptionNum newTop m))
                    else Inr m)
                   (\<lambda>m1. and_then (printMenuOptions api custom [] False (m1, w2))
                            (\<lambda>(m2, w3). Inr (m2, snd (restoreSavedCursorPos api custom w3))))))"

definition move_marker ::
  "'h WinAPI \<Rightarrow> bool \<Rightarrow> nat \<Rightarrow> nat \<Rightarrow> MenuOptionList \<times> 'h \<times> OutputBuffer
     \<Rightarrow> error + MenuOptionList \<times> 'h \<times> OutputBuffer" where
  \<comment> \<open>lines 849 to 859: the new selection is inside the viewport\<close>
  "move_marker api custom prevSelectionNum newSelectionNum mw =
     (let (m, world) = mw
      in and_then (MenuOptionList_getCursorPos prevSelectionNum m)
           (\<lambda>prevCursorPos. and_then (MenuOptionList_getCursorPos newSelectionNum m)
           (\<lambda>newCursorPos.
              case (prevCursorPos, newCursorPos) of
                (Some p, Some q) \<Rightarrow>
                  (let w1 = snd (saveCursorPos api custom world);
                       w2 = snd (setCursorPos api custom p w1)
                   in and_then (print api custom (L '' '') True w2)
                        (\<lambda>w3. and_then (print api custom (L ''>'') True
                                          (snd (setCursorPos api custom q w3)))
                                 (\<lambda>w4. Inr (m, snd (restoreSavedCursorPos api custom w4)))))
              | _ \<Rightarrow> Inl undefined_behaviour)))"

type_synonym 'h menu_state = "MenuOptionList \<times> ('h \<times> OutputBuffer) \<times> nat option"

definition DEFAULT_NAVIGATION_ACTIONS ::
  "'h WinAPI \<Rightarrow> bool \<Rightarrow> WinConsoleInputKey \<Rightarrow> 'h menu_state
     \<Rightarrow> error + (bool \<times> bool) \<times> 'h menu_state" where
  \<comment> \<open>Console.cpp, 694 to 866; the state is the list, the console and
      \<open>currentSelectionNum\<close>\<close>
  "DEFAULT_NAVIGATION_ACTIONS api custom key st =
     (let (m, world, currentSelectionNum) = st;
          prevSelectionNum = (case currentSelectionNum of Some s \<Rightarrow> s | None \<Rightarrow> 1)
      in and_then (select_by_key key m prevSelectionNum)
           (\<lambda>(newSelectionNum, stopProcessingInput).
              if newSelectionNum \<noteq> prevSelectionNum
              then (let m1 = setSelectedOption newSelectionNum m
                    in and_then
                         (if newSelectionNum < topMenuOptionNum m
                               \<or> bottomMenuOptionNum m < newSelectionNum
                          then scroll_menu api custom prevSelectionNum newSelectionNum (m1, world)
                          else move_marker api custom prevSelectionNum newSelectionNum (m1, world))
                         (\<lambda>(m2, w2). Inr (stopProcessingInput, m2, w2, Some newSelectionNum)))
              else Inr (stopProcessingInput, m, world, currentSelectionNum)))"

definition DEFAULT_ESCAPE_ACTION ::
  "WinConsoleInputKey \<Rightarrow> 'h menu_state \<Rightarrow> error + (bool \<times> bool) \<times> 'h menu_state" where
  \<comment> \<open>Console.cpp, 873 to 888\<close>
  "DEFAULT_ESCAPE_ACTION key st =
     (let (m, world, currentSelectionNum) = st
      in if wVirtualKeyCode key = VK_ESCAPE then Inr ((True, True), m, world, None)
         else Inr ((False, False), m, world, currentSelectionNum))"

definition DEFAULT_ACTIONS ::
  "'h WinAPI \<Rightarrow> bool
     \<Rightarrow> (WinConsoleInputKey \<Rightarrow> 'h menu_state \<Rightarrow> error + (bool \<times> bool) \<times> 'h menu_state) list" where
  \<comment> \<open>Console.cpp, 892 to 895\<close>
  "DEFAULT_ACTIONS api custom = [DEFAULT_NAVIGATION_ACTIONS api custom, DEFAULT_ESCAPE_ACTION]"

subsection \<open>\<open>Console::waitForSelection\<close> (Console.cpp, 1358 to 1450)\<close>

type_synonym 'h action =
  "WinConsoleInputKey \<Rightarrow> 'h menu_state \<Rightarrow> error + (bool \<times> bool) \<times> 'h menu_state"

definition printMenuOptionStatusMessage ::
  "'h WinAPI \<Rightarrow> 'h InputAPI \<Rightarrow> bool \<Rightarrow> MenuOptionList \<times> 'h \<times> OutputBuffer
     \<Rightarrow> error + bool \<times> MenuOptionList \<times> 'h \<times> OutputBuffer" where
  \<comment> \<open>the lambda of lines 1381 to 1408\<close>
  "printMenuOptionStatusMessage api iapi custom mw =
     (let (m, world) = mw
      in if statusMessage m \<noteq> []
         then
           (let initialScrollOffset = getCursorScrollOffset custom (snd world)
            in and_then
                 (if 0 < statusMessageIssueTime m then clear api custom False False world
                  else Inr world)
                 (\<lambda>w1. and_then (println api custom False (snd (saveCursorPos api custom w1)))
                 (\<lambda>w2. and_then (print api custom (statusMessage m) False w2)
                 (\<lambda>w3.
                    let finalScrollOffset = getCursorScrollOffset custom (snd w3)
                    in and_then
                         (if sint initialScrollOffset < sint finalScrollOffset
                          then (case menuCursorStartPos m of
                                  None \<Rightarrow> Inl undefined_behaviour
                                | Some p \<Rightarrow>
                                    Inr (m\<lparr>menuCursorStartPos :=
                                              Some (p\<lparr>Y := max_short
                                                             (Y p - (finalScrollOffset
                                                                       - initialScrollOffset)) 0\<rparr>)\<rparr>))
                          else Inr m)
                         (\<lambda>m1. let w4 = snd (restoreSavedCursorPos api custom w3)
                                in Inr (True, snd (issueStatusMessage (time iapi (fst w4)) m1), w4))))))
         else Inr (False, m, world))"

definition waitForValidInput ::
  "'h InputAPI \<Rightarrow> 32 word \<Rightarrow> bool \<Rightarrow> MenuOptionList \<Rightarrow> 'h \<times> OutputBuffer
     \<Rightarrow> WinConsoleInputKey option \<times> 'h \<times> OutputBuffer" where
  \<comment> \<open>the lambda of lines 1419 to 1423\<close>
  "waitForValidInput iapi maxWaitTime flushBuffer m world =
     (let (key, h1) = waitForInput iapi flushBuffer
                        (if hasActiveStatusMessage m then 1 else maxWaitTime) (fst world)
      in (key, h1, snd world))"

fun run_actions ::
  "'h action list \<Rightarrow> WinConsoleInputKey \<Rightarrow> bool \<times> bool \<Rightarrow> 'h menu_state
     \<Rightarrow> error + (bool \<times> bool) \<times> 'h menu_state" where
  \<comment> \<open>the \<open>for\<close> loop of lines 1432 to 1437 over the actions still to call\<close>
  "run_actions [] key stopProcessingInput st = Inr (stopProcessingInput, st)"
| "run_actions (a # rest) key stopProcessingInput st =
     and_then (a key st)
       (\<lambda>(stop1, st1). if fst stop1 \<or> snd stop1 then Inr (stop1, st1)
                        else run_actions rest key stop1 st1)"

record 'h wait_locals =
  stopProcessingInput :: "bool \<times> bool"
  lastKey :: "WinConsoleInputKey option"
  menuOptions :: MenuOptionList
  console :: "'h \<times> OutputBuffer"
  currentSelectionNum :: "nat option"

definition wait_continues :: "'h wait_locals \<Rightarrow> bool" where
  \<comment> \<open>the condition of the \<open>while\<close> of line 1428\<close>
  "wait_continues l \<longleftrightarrow>
     \<not> snd (stopProcessingInput l)
     \<and> ((case lastKey l of Some k \<Rightarrow> wVirtualKeyCode k \<noteq> VK_RETURN | None \<Rightarrow> False)
        \<or> (lastKey l = None \<and> hasActiveStatusMessage (menuOptions l)))"

definition wait_body ::
  "'h WinAPI \<Rightarrow> 'h InputAPI \<Rightarrow> bool \<Rightarrow> 'h action list \<Rightarrow> 32 word \<Rightarrow> 'h wait_locals
     \<Rightarrow> error + 'h wait_locals" where
  \<comment> \<open>one turn of the \<open>while\<close>, lines 1429 to 1445\<close>
  "wait_body api iapi custom actions maxWaitTime l =
     and_then
       (case lastKey l of
          Some k \<Rightarrow> run_actions actions k (stopProcessingInput l)
                      (menuOptions l, console l, currentSelectionNum l)
        | None \<Rightarrow> Inr (stopProcessingInput l, menuOptions l, console l, currentSelectionNum l))
       (\<lambda>(stop1, m1, w1, cur1).
          and_then (printMenuOptionStatusMessage api iapi custom (m1, w1))
            (\<lambda>(printed, m2, w2).
               and_then
                 (if \<not> printed
                  then (let (expired, m3) = hasExpiredStatusMessage (time iapi (fst w2)) m2
                        in if expired
                           then and_then (clear api custom False False w2) (\<lambda>w3. Inr (m3, w3))
                           else Inr (m3, w2))
                  else Inr (m2, w2))
                 (\<lambda>(m4, w4).
                    if \<not> snd stop1
                    then (let (key, w5) = waitForValidInput iapi maxWaitTime False m4 w4
                          in Inr \<lparr>stopProcessingInput = stop1, lastKey = key, menuOptions = m4,
                                  console = w5, currentSelectionNum = cur1\<rparr>)
                    else Inr \<lparr>stopProcessingInput = stop1, lastKey = lastKey l, menuOptions = m4,
                             console = w4, currentSelectionNum = cur1\<rparr>)))"

partial_function (option) wait_loop ::
  "'h WinAPI \<Rightarrow> 'h InputAPI \<Rightarrow> bool \<Rightarrow> 'h action list \<Rightarrow> 32 word \<Rightarrow> 'h wait_locals
     \<Rightarrow> (error + 'h wait_locals) option" where
  "wait_loop api iapi custom actions maxWaitTime l =
     (if wait_continues l
      then (if isl (wait_body api iapi custom actions maxWaitTime l)
            then Some (Inl (projl (wait_body api iapi custom actions maxWaitTime l)))
            else wait_loop api iapi custom actions maxWaitTime
                   (projr (wait_body api iapi custom actions maxWaitTime l)))
      else Some (Inr l))"

declare wait_loop.simps [code]

definition waitForSelection ::
  "'h WinAPI \<Rightarrow> 'h InputAPI \<Rightarrow> bool \<Rightarrow> 'h action list \<Rightarrow> 32 word
     \<Rightarrow> MenuOptionList \<times> 'h \<times> OutputBuffer
     \<Rightarrow> (error + nat option \<times> MenuOptionList \<times> 'h \<times> OutputBuffer) option" where
  \<comment> \<open>the result is \<open>None\<close> when the loop never ends; \<open>actions\<close> is
      \<open>menuOptions.getActions()\<close>\<close>
  "waitForSelection api iapi custom actions maxWaitTime mw =
     (let (m, world) = mw;
          cur0 = Some (case selectedOptionNum m of Some s \<Rightarrow> s | None \<Rightarrow> 0)
      in case printMenuOptionStatusMessage api iapi custom (m, world) of
           Inl e \<Rightarrow> Some (Inl e)
         | Inr (printed, m1, w1) \<Rightarrow>
             (let (key, w2) = waitForValidInput iapi maxWaitTime True m1 w1
              in case wait_loop api iapi custom actions maxWaitTime
                        \<lparr>stopProcessingInput = (False, False), lastKey = key, menuOptions = m1,
                         console = w2, currentSelectionNum = cur0\<rparr> of
                   None \<Rightarrow> None
                 | Some (Inl e) \<Rightarrow> Some (Inl e)
                 | Some (Inr l) \<Rightarrow>
                     Some (Inr (currentSelectionNum l, menuOptions l, console l))))"

section \<open>A console for concrete runs\<close>

text \<open>
  A console of a fixed size that keeps only its cursor: a line feed moves the cursor to
  the start of the next row, or leaves it on the last row when the window has to scroll;
  a recognised escape sequence takes no room; any other character moves the cursor one
  column to the right. It gives the API functions something to answer where a property
  is shown on an example.
\<close>

record SimConsole =
  sim_cursor :: COORD
  sim_size :: COORD

fun sim_write :: "nat \<Rightarrow> wstring \<Rightarrow> SimConsole \<Rightarrow> SimConsole" where
  "sim_write skip [] t = t"
| "sim_write skip (c # cs) t =
     (if 0 < skip then sim_write (skip - 1) cs t
      else if c = 0x0A
      then sim_write 0 cs
             (t\<lparr>sim_cursor :=
                  \<lparr>X = 0, Y = (if Y (sim_cursor t) + 1 = Y (sim_size t)
                               then Y (sim_cursor t) else Y (sim_cursor t) + 1)\<rparr>\<rparr>)
      else case TERMINAL_SEQUENCE_REGEX (c # cs) of
             Some n \<Rightarrow> sim_write (n - 1) cs t
           | None \<Rightarrow>
               sim_write 0 cs (t\<lparr>sim_cursor := (sim_cursor t)\<lparr>X := X (sim_cursor t) + 1\<rparr>\<rparr>))"

definition sim_api :: "SimConsole WinAPI" where
  "sim_api =
     \<lparr>GetConsoleScreenBufferInfo =
        (\<lambda>hdl t. \<lparr>dwCursorPosition = sim_cursor t, dwMaximumWindowSize = sim_size t\<rparr>),
      WriteConsoleW = (\<lambda>hdl s t. sim_write 0 s t),
      SetConsoleCursorPosition = (\<lambda>hdl p t. (True, t\<lparr>sim_cursor := p\<rparr>)),
      CreateConsoleScreenBuffer = (\<lambda>t. (2, t)),
      SetConsoleActiveScreenBuffer = (\<lambda>hdl t. t),
      CloseHandle = (\<lambda>hdl t. t)\<rparr>"

definition sim_start :: "COORD \<Rightarrow> COORD \<Rightarrow> SimConsole \<times> OutputBuffer" where
  \<comment> \<open>the engine as its constructor leaves it (Console.cpp, 92 to 100) on a console of
      the given size with the cursor at the given place\<close>
  "sim_start window cursor =
     (\<lparr>sim_cursor = cursor, sim_size = window\<rparr>,
      \<lparr>mainBufferData = (new_BufferData 1)\<lparr>cursorStartPos := cursor\<rparr>, altBufferData = []\<rparr>)"

definition sim_idle :: "SimConsole InputAPI" where
  \<comment> \<open>nobody at the keyboard: every wait for input times out; the clock stands at 100\<close>
  "sim_idle = \<lparr>waitForInput = (\<lambda>flushBuffer maxWaitTime t. (None, t)), time = (\<lambda>t. 100)\<rparr>"

section \<open>Notions used in the statements and proofs\<close>

text \<open>
  \<open>frame\<close> is what the loop of \<open>print\<close> never writes of a buffer's data, \<open>recorded\<close> what
  a \<open>print\<close> that does not add to the buffer never writes. \<open>popped\<close> is the engine with
  the top of its stack of alternate buffers removed. \<open>repeat_println\<close> is \<open>println(false)\<close>
  called a number of times, and \<open>scrolled_by k\<close> the engine in native mode, its cursor on
  the last row of a window of two rows, after \<open>k\<close> lines have scrolled.
\<close>

definition frame :: "BufferData \<Rightarrow> HANDLE \<times> COORD list \<times> COORD \<times> short \<times> bool" where
  "frame bd = (handle bd, savedCursors bd, cursorStartPos bd, cursorScrollOffset bd, cursorIsVisible bd)"

definition recorded :: "BufferData \<Rightarrow> HANDLE \<times> wstring list \<times> size_t list list \<times> bool" where
  "recorded bd = (handle bd, contents bd, contentsCursorData bd, cursorIsVisible bd)"

definition same_recorded :: "OutputBuffer \<Rightarrow> OutputBuffer \<Rightarrow> bool" where
  "same_recorded ob ob' \<longleftrightarrow>
     recorded (mainBufferData ob') = recorded (mainBufferData ob)
     \<and> map recorded (altBufferData ob') = map recorded (altBufferData ob)"


fun repeat_println ::
  "'h WinAPI \<Rightarrow> bool \<Rightarrow> nat \<Rightarrow> 'h \<times> OutputBuffer \<Rightarrow> error + 'h \<times> OutputBuffer" where
  "repeat_println api custom 0 w = Inr w"
| "repeat_println api custom (Suc n) w =
     and_then (println api custom False w) (repeat_println api custom n)"

definition scrolled_by :: "short \<Rightarrow> SimConsole \<times> OutputBuffer" where
  "scrolled_by k =
     (\<lparr>sim_cursor = \<lparr>X = 0, Y = 1\<rparr>, sim_size = \<lparr>X = 80, Y = 2\<rparr>\<rparr>,
      \<lparr>mainBufferData = (new_BufferData 1)
         \<lparr>cursorStartPos := \<lparr>X = 0, Y = 1\<rparr>, cursorScrollOffset := k\<rparr>,
       altBufferData = []\<rparr>)"





text \<open>
  Examples. \<open>bottom_row_example\<close>: virtualized mode, a window of three rows, the cursor
  and the origin on the last row, one saved cursor on that row; \<open>three_rows_scrolled\<close> is
  what three line feeds make of it: the scroll offset is 3, and the origin row and the
  row of the saved cursor, lowered by 3 from 2, are 0. \<open>after_AB\<close>: the engine started on row 1 of a window of
  25 rows after \<open>print("AB\n")\<close>; \<open>after_round_trip\<close>: the same after an alternate buffer
  has been created and restored. \<open>after_colour\<close>: the engine started on row 1 after
  \<open>print("A\x1B[90mBC")\<close>; \<open>after_overwrite\<close>: the same after the cursor has been set to
  column 1 of that row and \<open>print("Z")\<close>.
\<close>

definition bottom_row_example :: "SimConsole \<times> OutputBuffer" where
  "bottom_row_example =
     (\<lparr>sim_cursor = \<lparr>X = 0, Y = 2\<rparr>, sim_size = \<lparr>X = 80, Y = 3\<rparr>\<rparr>,
      \<lparr>mainBufferData = (new_BufferData 1)
         \<lparr>savedCursors := [\<lparr>X = 5, Y = 2\<rparr>], cursorStartPos := \<lparr>X = 0, Y = 2\<rparr>\<rparr>,
       altBufferData = []\<rparr>)"

definition three_rows_scrolled :: "SimConsole \<times> OutputBuffer" where
  "three_rows_scrolled =
     (\<lparr>sim_cursor = \<lparr>X = 0, Y = 2\<rparr>, sim_size = \<lparr>X = 80, Y = 3\<rparr>\<rparr>,
      \<lparr>mainBufferData = (new_BufferData 1)
         \<lparr>savedCursors := [\<lparr>X = 5, Y = 0\<rparr>], cursorStartPos := \<lparr>X = 0, Y = 0\<rparr>,
          cursorScrollOffset := 3\<rparr>,
       altBufferData = []\<rparr>)"



definition after_colour :: "SimConsole \<times> OutputBuffer" where
  "after_colour =
     (\<lparr>sim_cursor = \<lparr>X = 3, Y = 1\<rparr>, sim_size = \<lparr>X = 80, Y = 25\<rparr>\<rparr>,
      \<lparr>mainBufferData = (new_BufferData 1)
         \<lparr>contents := [L ''A'' @ getVirtualTerminalSequence (L ''[90mBC'')],
          contentsCursorData := [[0, 6, 7]],
          cursorStartPos := \<lparr>X = 0, Y = 1\<rparr>\<rparr>,
       altBufferData = []\<rparr>)"

definition after_overwrite :: "SimConsole \<times> OutputBuffer" where
  "after_overwrite =
     (\<lparr>sim_cursor = \<lparr>X = 2, Y = 1\<rparr>, sim_size = \<lparr>X = 80, Y = 25\<rparr>\<rparr>,
      \<lparr>mainBufferData = (new_BufferData 1)
         \<lparr>contents := [L ''ZC''],
          contentsCursorData := [[- 6, 0, 1]],
          cursorStartPos := \<lparr>X = 0, Y = 1\<rparr>\<rparr>,
       altBufferData = []\<rparr>)"

text \<open>
  For the scanner: a matcher is \<open>clean\<close> when what it consumes holds no escape
  character, \<open>strict\<close> when it also consumes at least one character. \<open>print_steps n\<close> is
  the loop of \<open>print\<close> stopped after \<open>n\<close> characters, \<open>next_column\<close> the cursor one
  column further, wrapped at the width of the window as lines 425 to 431 do, and
  \<open>scan_inv\<close> says that the characters a detected sequence still covers are not escape
  characters. \<open>stray_escape\<close> is the text \<open>A ESC SPACE\<close>, whose escape character starts no
  recognised sequence.
\<close>

definition clean :: "matcher \<Rightarrow> bool" where
  "clean m \<longleftrightarrow>
     (\<forall>s r. m s = Some r \<longrightarrow> (\<exists>p. s = p @ r \<and> VIRTUAL_TERMINAL_SEQUENCE_ESCAPE \<notin> set p))"

definition strict :: "matcher \<Rightarrow> bool" where
  "strict m \<longleftrightarrow> clean m \<and> (\<forall>s r. m s = Some r \<longrightarrow> length r < length s)"

fun print_steps ::
  "nat \<Rightarrow> bool \<Rightarrow> short \<Rightarrow> short \<Rightarrow> wstring \<Rightarrow> print_locals \<Rightarrow> error + print_locals" where
  "print_steps 0 addToBuffer originY windowWidth s l = Inr l"
| "print_steps (Suc n) addToBuffer originY windowWidth [] l = Inr l"
| "print_steps (Suc n) addToBuffer originY windowWidth (c # cs) l =
     and_then (print_char addToBuffer originY windowWidth (c # cs) l)
       (print_steps n addToBuffer originY windowWidth cs)"

definition next_column :: "short \<Rightarrow> COORD \<Rightarrow> COORD" where
  "next_column windowWidth p =
     (if X p + 1 = windowWidth then \<lparr>X = 0, Y = Y p + 1\<rparr> else \<lparr>X = X p + 1, Y = Y p\<rparr>)"

definition scan_inv :: "wstring \<Rightarrow> print_locals \<Rightarrow> bool" where
  "scan_inv rest l \<longleftrightarrow>
     (isDetectedTerminalSequence l \<longrightarrow>
       (\<forall>i. strPos l + i \<le> termSeqEndPos l \<longrightarrow> i < length rest \<longrightarrow>
            rest ! i \<noteq> VIRTUAL_TERMINAL_SEQUENCE_ESCAPE))"

definition stray_escape :: wstring where
  "stray_escape = L ''A'' @ [VIRTUAL_TERMINAL_SEQUENCE_ESCAPE, 0x20]"

definition stray_escape_start :: print_locals where
  "stray_escape_start = print_start sim_api True (sim_start \<lparr>X = 80, Y = 25\<rparr> \<lparr>X = 0, Y = 1\<rparr>)"

text \<open>
  For the menu: \<open>KEY_DOWN\<close>, \<open>KEY_UP\<close> and \<open>digit_key\<close> are the key events of the arrow
  keys and of the digit keys of the top row. \<open>press_down n\<close> is the navigation action
  called \<open>n\<close> times with the Down key. \<open>three_options\<close> is a list of three options
  between a prefix and a suffix, the second of which has the hotkey \<open>b\<close>, and
  \<open>three_options_drawn\<close> is that list with the console after \<open>printMenuOptions\<close> has
  drawn it on row 1; the rows read \<open>1) Alpha\<close>, \<open>b) Beta\<close> and \<open>2) Gamma\<close>.
\<close>

definition KEY_DOWN :: WinConsoleInputKey where
  "KEY_DOWN = \<lparr>wVirtualKeyCode = VK_DOWN, UnicodeChar = 0\<rparr>"

definition KEY_UP :: WinConsoleInputKey where
  "KEY_UP = \<lparr>wVirtualKeyCode = VK_UP, UnicodeChar = 0\<rparr>"

definition digit_key :: "nat \<Rightarrow> WinConsoleInputKey" where
  "digit_key d = \<lparr>wVirtualKeyCode = 0x30 + of_nat d, UnicodeChar = 0x30 + of_nat d\<rparr>"

fun press_down :: "'h WinAPI \<Rightarrow> bool \<Rightarrow> nat \<Rightarrow> 'h menu_state \<Rightarrow> error + 'h menu_state" where
  "press_down api custom 0 st = Inr st"
| "press_down api custom (Suc n) st =
     and_then (DEFAULT_NAVIGATION_ACTIONS api custom KEY_DOWN st)
       (\<lambda>(stop, st1). press_down api custom n st1)"

definition plain_option :: "wstring \<Rightarrow> wchar_t option \<Rightarrow> MenuOption" where
  "plain_option label key =
     \<lparr>option = label, hotkey = key, disabled = False,
      padding = \<lparr>padding_top = False, padding_left = False,
                 padding_right = False, padding_bottom = False\<rparr>\<rparr>"

definition three_options :: MenuOptionList where
  "three_options =
     (new_MenuOptionList
        [plain_option (L ''Alpha'') None, plain_option (L ''Beta'') (Some 0x62),
         plain_option (L ''Gamma'') None])
       \<lparr>prefix := L ''| '', suffix := L '' |'', width := 12\<rparr>"

definition three_options_drawn :: "MenuOptionList \<times> SimConsole \<times> OutputBuffer" where
  "three_options_drawn =
     (three_options\<lparr>menuCursorStartPos := Some \<lparr>X = 2, Y = 1\<rparr>, bottomMenuOptionNum := 2\<rparr>,
      \<lparr>sim_cursor = \<lparr>X = 0, Y = 4\<rparr>, sim_size = \<lparr>X = 80, Y = 25\<rparr>\<rparr>,
      \<lparr>mainBufferData = (new_BufferData 1)
         \<lparr>contents := [L ''| > 1) Alpha   |'', L ''|   b) Beta    |'', L ''|   2) Gamma   |''],
          contentsCursorData := [map of_nat [0 ..< 17], map of_nat [0 ..< 17], map of_nat [0 ..< 17]],
          cursorStartPos := \<lparr>X = 0, Y = 1\<rparr>\<rparr>,
       altBufferData = []\<rparr>)"

chapter \<open>Properties\<close>

section \<open>Basic facts\<close>

lemma and_then_Inr_iff:
  "and_then r f = Inr y \<longleftrightarrow> (\<exists>x. r = Inr x \<and> f x = Inr y)"
  by (cases r) (simp_all add: and_then_def)

lemma and_then_Inr [simp]: "and_then (Inr x) f = f x"
  by (simp add: and_then_def)

lemma and_then_Inl [simp]: "and_then (Inl e) f = Inl e"
  by (simp add: and_then_def)

lemma detect_sequence_frame:
  "bufferData (detect_sequence rest l) = bufferData l
   \<and> newlineCount (detect_sequence rest l) = newlineCount l
   \<and> strLength (detect_sequence rest l) = strLength l
   \<and> strPos (detect_sequence rest l) = strPos l"
  by (simp add: detect_sequence_def Let_def split: option.splits)

lemma advance_cursor_frame:
  "bufferData (advance_cursor w c l) = bufferData l
   \<and> newlineCount (advance_cursor w c l) = newlineCount l
   \<and> strLength (advance_cursor w c l) = strLength l
   \<and> strPos (advance_cursor w c l) = strPos l"
  by (simp add: advance_cursor_def Let_def)

lemma add_to_buffer_frame:
  assumes "add_to_buffer oy w c l = Inr l'"
  shows "frame (bufferData l') = frame (bufferData l)
   \<and> newlineCount l' = newlineCount l \<and> strLength l' = strLength l \<and> strPos l' = strPos l"
  using assms
  by (auto simp add: add_to_buffer_def Let_def and_then_Inr_iff advance_cursor_frame
        populate_lines_def frame_def split: if_splits)

lemma print_char_frame:
  assumes "print_char atb oy w rest l = Inr l'"
  shows "frame (bufferData l') = frame (bufferData l)
   \<and> newlineCount l' = newlineCount l + (if hd rest = 0x0A then 1 else 0)
   \<and> strLength l' = strLength l + 1 \<and> strPos l' = strPos l + 1"
proof -
  from assms obtain l2 where
    a: "(if atb then add_to_buffer oy w (hd rest) (detect_sequence rest l)
         else Inr (detect_sequence rest l)) = Inr l2"
    and b: "l' = l2\<lparr>newlineCount := (if hd rest = 0x0A then newlineCount l2 + 1 else newlineCount l2),
                    strLength := strLength l2 + 1, strPos := strPos l2 + 1\<rparr>"
    by (auto simp add: print_char_def Let_def and_then_Inr_iff)
  have c: "frame (bufferData l2) = frame (bufferData l) \<and> newlineCount l2 = newlineCount l
        \<and> strLength l2 = strLength l \<and> strPos l2 = strPos l"
  proof (cases atb)
    case True
    with a have "add_to_buffer oy w (hd rest) (detect_sequence rest l) = Inr l2" by simp
    from add_to_buffer_frame [OF this] show ?thesis by (simp add: detect_sequence_frame)
  next
    case False
    with a show ?thesis by (auto simp add: detect_sequence_frame)
  qed
  show ?thesis unfolding b using c by (simp add: frame_def)
qed

lemma print_loop_frame:
  assumes "print_loop atb oy w s l = Inr l'"
  shows "frame (bufferData l') = frame (bufferData l)
   \<and> newlineCount l' = newlineCount l + of_nat (count_list s 0x0A)
   \<and> strLength l' = strLength l + of_nat (length s) \<and> strPos l' = strPos l + length s"
  using assms
proof (induction s arbitrary: l)
  case Nil
  then show ?case by simp
next
  case (Cons c cs)
  from Cons.prems obtain l1 where
    a: "print_char atb oy w (c # cs) l = Inr l1" and b: "print_loop atb oy w cs l1 = Inr l'"
    by (auto simp add: and_then_Inr_iff)
  from print_char_frame [OF a] Cons.IH [OF b] show ?case
    by (simp add: algebra_simps)
qed

lemma print_char_untracked:
  "\<exists>l'. print_char False oy w rest l = Inr l' \<and> bufferData l' = bufferData l"
  by (simp add: print_char_def Let_def detect_sequence_frame)

lemma print_loop_untracked:
  "\<exists>l'. print_loop False oy w s l = Inr l' \<and> bufferData l' = bufferData l"
proof (induction s arbitrary: l)
  case Nil
  then show ?case by simp
next
  case (Cons c cs)
  obtain l1 where a: "print_char False oy w (c # cs) l = Inr l1" "bufferData l1 = bufferData l"
    using print_char_untracked by blast
  with Cons.IH [of l1] show ?case by auto
qed

text \<open>What a call of print does after its loop.\<close>

lemma print_Inr:
  assumes "print api custom str atb (h, ob) = Inr (h', ob')"
  shows "\<exists>bd. frame bd = frame (getCurrentBufferData custom False ob)
     \<and> (\<not> atb \<longrightarrow> bd = getCurrentBufferData custom False ob)
     \<and> h' = writeToConsole api (getBufferHandle custom ob) (takeWhile (\<lambda>c. c \<noteq> 0) str)
              (of_nat (length (takeWhile (\<lambda>c. c \<noteq> 0) str))) h
     \<and> ob' = (if 0 < sint (of_nat (count_list (takeWhile (\<lambda>c. c \<noteq> 0) str) 0x0A) :: short)
              then scroll_bookkeeping custom
                     (of_nat (count_list (takeWhile (\<lambda>c. c \<noteq> 0) str) 0x0A)
                        - (Y (getCursorPos api custom (h', ob)) - Y (getCursorPos api custom (h, ob))))
                     (setCurrentBufferData bd ob)
              else setCurrentBufferData bd ob)"
proof -
  define s where "s = takeWhile (\<lambda>c. c \<noteq> 0) str"
  from assms obtain l where
    loop: "print_loop atb (Y (cursorStartPos (getCurrentBufferData custom True ob)))
             (X (dwMaximumWindowSize (GetConsoleScreenBufferInfo api
                 (handle (getCurrentBufferData custom False ob)) h))) s
             (print_start api custom (h, ob)) = Inr l"
    and rest: "print_finish api custom s (h, ob) l = (h', ob')"
    by (auto simp add: print_def Let_def and_then_Inr_iff s_def)
  from print_loop_frame [OF loop]
  have fr: "frame (bufferData l) = frame (getCurrentBufferData custom False ob)"
    and nc: "newlineCount l = of_nat (count_list s 0x0A)"
    and sl: "strLength l = of_nat (length s)"
    by (simp_all add: print_start_def)
  have un: "bufferData l = getCurrentBufferData custom False ob" if "\<not> atb"
  proof -
    obtain l' where
      "print_loop False (Y (cursorStartPos (getCurrentBufferData custom True ob)))
             (X (dwMaximumWindowSize (GetConsoleScreenBufferInfo api
                 (handle (getCurrentBufferData custom False ob)) h))) s
             (print_start api custom (h, ob)) = Inr l'"
      and "bufferData l' = bufferData (print_start api custom (h, ob))"
      using print_loop_untracked by blast
    with loop that show ?thesis by (simp add: print_start_def)
  qed
  have hd: "getBufferHandle custom (setCurrentBufferData (bufferData l) ob) = getBufferHandle custom ob"
    using fr by (auto simp add: getBufferHandle_def getCurrentBufferData_def
        setCurrentBufferData_def frame_def split: list.splits)
  have gp: "getCursorPos api custom (hh, setCurrentBufferData (bufferData l) ob)
          = getCursorPos api custom (hh, ob)" for hh
    using hd by (simp add: getCursorPos_def)
  show ?thesis
    apply (rule exI [of _ "bufferData l"])
    using rest fr un
    by (auto simp add: print_finish_def Let_def hd gp nc sl s_def split: if_splits)
qed

lemma same_recorded_refl [simp]: "same_recorded ob ob"
  by (simp add: same_recorded_def)


lemma scroll_bookkeeping_recorded:
  "same_recorded ob (scroll_bookkeeping custom k ob)"
  by (cases "altBufferData ob"; cases custom)
     (auto simp add: scroll_bookkeeping_def getCurrentBufferData_def setCurrentBufferData_def
        same_recorded_def recorded_def Let_def)

lemma setCurrentBufferData_get [simp]:
  "setCurrentBufferData (getCurrentBufferData custom False ob) ob = ob"
  by (cases "altBufferData ob")
     (auto simp add: getCurrentBufferData_def setCurrentBufferData_def)

lemma print_untracked:
  "\<exists>h' ob'. print api custom str False (h, ob) = Inr (h', ob') \<and> same_recorded ob ob'"
proof -
  let ?s = "takeWhile (\<lambda>c. c \<noteq> 0) str"
  obtain l where
    loop: "print_loop False (Y (cursorStartPos (getCurrentBufferData custom True ob)))
             (X (dwMaximumWindowSize (GetConsoleScreenBufferInfo api
                 (handle (getCurrentBufferData custom False ob)) h))) ?s
             (print_start api custom (h, ob)) = Inr l"
    using print_loop_untracked by blast
  then have p: "print api custom str False (h, ob) = Inr (print_finish api custom ?s (h, ob) l)"
    by (simp add: print_def Let_def)
  obtain h' ob' where e: "print_finish api custom ?s (h, ob) l = (h', ob')"
    by (cases "print_finish api custom ?s (h, ob) l")
  from p e have "print api custom str False (h, ob) = Inr (h', ob')" by simp
  from print_Inr [OF this] obtain bd where
    "bd = getCurrentBufferData custom False ob"
    and "ob' = (if 0 < sint (of_nat (count_list ?s 0x0A) :: short)
              then scroll_bookkeeping custom
                     (of_nat (count_list ?s 0x0A)
                        - (Y (getCursorPos api custom (h', ob)) - Y (getCursorPos api custom (h, ob))))
                     (setCurrentBufferData bd ob)
              else setCurrentBufferData bd ob)"
    by auto
  then have "same_recorded ob ob'"
    by (simp add: scroll_bookkeeping_recorded)
  with p e show ?thesis by simp
qed

text \<open>A call of print that does not add to the buffer, in full.\<close>

lemma print_untracked_result:
  "print api custom str False (h, ob)
     = Inr (let s = takeWhile (\<lambda>c. c \<noteq> 0) str;
                h' = writeToConsole api (getBufferHandle custom ob) s (of_nat (length s)) h
            in (h', if 0 < sint (of_nat (count_list s 0x0A) :: short)
                    then scroll_bookkeeping custom
                           (of_nat (count_list s 0x0A)
                              - (Y (getCursorPos api custom (h', ob))
                                 - Y (getCursorPos api custom (h, ob)))) ob
                    else ob))"
proof -
  obtain h' ob' where r: "print api custom str False (h, ob) = Inr (h', ob')"
    using print_untracked [of api custom str h ob] by blast
  from print_Inr [OF r] show ?thesis
    unfolding r Let_def by auto
qed

lemma and_then_InrE:
  assumes "and_then x f = Inr y"
  obtains a where "x = Inr a" and "f a = Inr y"
  using assms by (cases x) (simp_all add: and_then_def)

section \<open>The scroll bookkeeping of \<open>print\<close>\<close>

lemma scroll_bookkeeping_fields:
  assumes "frame bd = frame (getCurrentBufferData custom False ob)"
  shows "let ob1 = scroll_bookkeeping custom k (setCurrentBufferData bd ob);
             cur = getCurrentBufferData custom False
         in if 0 < sint k \<and> 0 < sint (Y (cursorStartPos (getCurrentBufferData custom True ob)))
            then cursorScrollOffset (cur ob1) = cursorScrollOffset (cur ob) + k
               \<and> savedCursors (cur ob1)
                   = map (\<lambda>p. p\<lparr>Y := max_short (Y p - k) 0\<rparr>) (savedCursors (cur ob))
               \<and> cursorStartPos (mainBufferData ob1)
                   = (if custom
                      then (cursorStartPos (mainBufferData ob))
                             \<lparr>Y := max_short (Y (cursorStartPos (mainBufferData ob)) - k) 0\<rparr>
                      else cursorStartPos (mainBufferData ob))
            else cursorScrollOffset (cur ob1) = cursorScrollOffset (cur ob)
               \<and> savedCursors (cur ob1) = savedCursors (cur ob)
               \<and> cursorStartPos (mainBufferData ob1) = cursorStartPos (mainBufferData ob)"
  using assms
  by (cases "altBufferData ob"; cases custom)
     (auto simp add: scroll_bookkeeping_def getCurrentBufferData_def setCurrentBufferData_def
        frame_def Let_def)

lemma setCurrentBufferData_fields:
  assumes "frame bd = frame (getCurrentBufferData custom False ob)"
  shows "cursorScrollOffset (getCurrentBufferData custom False (setCurrentBufferData bd ob))
           = cursorScrollOffset (getCurrentBufferData custom False ob)
       \<and> savedCursors (getCurrentBufferData custom False (setCurrentBufferData bd ob))
           = savedCursors (getCurrentBufferData custom False ob)
       \<and> cursorStartPos (mainBufferData (setCurrentBufferData bd ob))
           = cursorStartPos (mainBufferData ob)"
  using assms
  by (cases "altBufferData ob")
     (auto simp add: getCurrentBufferData_def setCurrentBufferData_def frame_def)

text \<open>
  What a call of \<open>print\<close> that returns does to the bookkeeping, whatever the text. The
  text is written to the console once. Let \<open>rowBefore\<close> and \<open>rowAfter\<close> be the rows of
  the real cursor before and after that write and
  \<open>scrolled = newlineCount - (rowAfter - rowBefore)\<close>, where \<open>newlineCount\<close> is the number
  of line feeds as the \<open>short\<close> counter holds it. The origin row is that of the buffer
  whose handle is written to: the main buffer in virtualized mode, the current buffer
  otherwise. Exactly when \<open>newlineCount > 0\<close>, \<open>scrolled > 0\<close> and the origin row is
  \<open>> 0\<close>, the scroll offset of the current buffer grows by \<open>scrolled\<close>, every saved
  cursor of the current buffer has its row lowered by \<open>scrolled\<close> and floored at 0, and
  in virtualized mode the origin row of the main buffer is lowered by \<open>scrolled\<close> and
  floored at 0. In every other case none of the three changes.
\<close>

lemma print_scroll_bookkeeping:
  assumes ret: "print api custom str addToBuffer (h, ob) = Inr (h', ob')"
  shows "let s = takeWhile (\<lambda>c. c \<noteq> 0) str;
             newlineCount = (of_nat (count_list s 0x0A) :: short);
             cur = getCurrentBufferData custom False;
             rowBefore = Y (getCursorPos api custom (h, ob));
             rowAfter = Y (getCursorPos api custom (h', ob));
             scrolled = newlineCount - (rowAfter - rowBefore);
             originRow = Y (cursorStartPos (getCurrentBufferData custom True ob))
         in h' = writeToConsole api (getBufferHandle custom ob) s (of_nat (length s)) h
          \<and> (if 0 < sint newlineCount \<and> 0 < sint scrolled \<and> 0 < sint originRow
             then cursorScrollOffset (cur ob') = cursorScrollOffset (cur ob) + scrolled
                \<and> savedCursors (cur ob')
                    = map (\<lambda>p. p\<lparr>Y := max_short (Y p - scrolled) 0\<rparr>) (savedCursors (cur ob))
                \<and> cursorStartPos (mainBufferData ob')
                    = (if custom
                       then (cursorStartPos (mainBufferData ob))
                              \<lparr>Y := max_short (Y (cursorStartPos (mainBufferData ob)) - scrolled) 0\<rparr>
                       else cursorStartPos (mainBufferData ob))
             else cursorScrollOffset (cur ob') = cursorScrollOffset (cur ob)
                \<and> savedCursors (cur ob') = savedCursors (cur ob)
                \<and> cursorStartPos (mainBufferData ob') = cursorStartPos (mainBufferData ob))"
proof -
  let ?s = "takeWhile (\<lambda>c. c \<noteq> 0) str"
  let ?k = "(of_nat (count_list ?s 0x0A) :: short)
      - (Y (getCursorPos api custom (h', ob)) - Y (getCursorPos api custom (h, ob)))"
  from print_Inr [OF ret] obtain bd where
    fr: "frame bd = frame (getCurrentBufferData custom False ob)"
    and hh: "h' = writeToConsole api (getBufferHandle custom ob) ?s (of_nat (length ?s)) h"
    and oo: "ob' = (if 0 < sint (of_nat (count_list ?s 0x0A) :: short)
              then scroll_bookkeeping custom ?k (setCurrentBufferData bd ob)
              else setCurrentBufferData bd ob)"
    by blast
  show ?thesis
  proof (cases "0 < sint (of_nat (count_list ?s 0x0A) :: short)")
    case True
    with oo have o: "ob' = scroll_bookkeeping custom ?k (setCurrentBufferData bd ob)" by simp
    from scroll_bookkeeping_fields [OF fr, of ?k] True show ?thesis
      unfolding o [symmetric] Let_def using hh by simp
  next
    case False
    with oo have o: "ob' = setCurrentBufferData bd ob" by simp
    from setCurrentBufferData_fields [OF fr] False show ?thesis
      unfolding o [symmetric] Let_def using hh by simp
  qed
qed

text \<open>The floor: a row lowered below 0 becomes 0, any other row is kept.\<close>

lemma max_short_floor: "sint (max_short a 0) = max (sint a) 0"
  by (simp add: max_short_def)

text \<open>On the console of the examples, line feeds on the last row leave the cursor there.\<close>

lemma sim_write_line_feeds:
  assumes "Y (sim_cursor t) + 1 = Y (sim_size t)" and "X (sim_cursor t) = 0"
  shows "sim_write 0 (replicate n 0x0A) t = t"
proof (induction n)
  case 0
  show ?case by simp
next
  case (Suc n)
  have "t\<lparr>sim_cursor := \<lparr>X = 0, Y = Y (sim_cursor t)\<rparr>\<rparr> = t"
    using assms(2) by simp
  with Suc assms(1) show ?case by simp
qed

lemma count_list_line_feeds: "count_list (replicate n x) x = n"
  by (induction n) simp_all

lemma print_line_feeds_uncounted:
  assumes "\<not> 0 < sint (of_nat n :: short)" and "n < 2 ^ 32"
    and "Y (sim_cursor t) + 1 = Y (sim_size t)" and "X (sim_cursor t) = 0"
  shows "print sim_api True (replicate n 0x0A) False (t, ob) = Inr (t, ob)"
proof -
  have s: "takeWhile (\<lambda>c. c \<noteq> 0) (replicate n (0x0A :: wchar_t)) = replicate n 0x0A"
    by (simp add: takeWhile_replicate)
  have u: "unat (of_nat n :: 32 word) = n"
    using assms(2) by (simp add: unat_of_nat)
  have w: "writeToConsole sim_api hdl (replicate n 0x0A) (of_nat n) t = t" for hdl
    using sim_write_line_feeds [OF assms(3,4), of n]
    by (simp add: writeToConsole_def sim_api_def u)
  show ?thesis
    unfolding print_untracked_result Let_def s
    using assms(1) by (simp add: w count_list_line_feeds)
qed

text \<open>
  C1 fails on the code. The counter \<open>newlineCount\<close> of line 298 is a \<open>short\<close>, and line
  445 adds one to it for every line feed: after 32768 line feeds it holds \<open>- 32768\<close>.
  The test \<open>newlineCount > 0\<close> of line 453 then fails, the text is written by the branch
  for a text with no line feed, and the rows of the cursor are not read. On
  \<open>bottom_row_example\<close> the cursor is on the last row of the window and the origin row
  is 2. Three line feeds scroll the window by three rows, and \<open>print\<close> records it: the
  scroll offset becomes 3, the origin row and the row of the saved cursor become 0.
  With 32768 line feeds the cursor is on the last row before and after the write, so
  32768 rows have scrolled, and \<open>print\<close> returns the engine as it was: scroll offset 0,
  origin row 2, saved cursor on row 2.
\<close>

theorem line_feed_counter_wraps:
  "count_list (replicate 32768 (0x0A :: wchar_t)) 0x0A = 32768
   \<and> sint (of_nat 32768 :: short) = - 32768
   \<and> print sim_api True (replicate 3 0x0A) False bottom_row_example = Inr three_rows_scrolled
   \<and> print sim_api True (replicate 32768 0x0A) False bottom_row_example = Inr bottom_row_example
   \<and> Y (getCursorPos sim_api True bottom_row_example) = 2
   \<and> Y (cursorStartPos (mainBufferData (snd bottom_row_example))) = 2
   \<and> cursorScrollOffset (mainBufferData (snd bottom_row_example)) = 0"
proof -
  have a: "count_list (replicate 32768 (0x0A :: wchar_t)) 0x0A = 32768"
    by (rule count_list_line_feeds)
  have b: "sint (of_nat 32768 :: short) = - 32768"
    by simp
  have c: "print sim_api True (replicate 3 0x0A) False bottom_row_example = Inr three_rows_scrolled"
    by code_simp
  have n: "\<not> 0 < sint (of_nat 32768 :: short)"
    by simp
  have "print sim_api True (replicate 32768 0x0A) False
          (fst bottom_row_example, snd bottom_row_example)
        = Inr (fst bottom_row_example, snd bottom_row_example)"
    by (rule print_line_feeds_uncounted [OF n]) (simp_all add: bottom_row_example_def)
  then have d: "print sim_api True (replicate 32768 0x0A) False bottom_row_example
      = Inr bottom_row_example"
    by simp
  have e: "Y (getCursorPos sim_api True bottom_row_example) = 2"
    by (simp add: getCursorPos_def sim_api_def bottom_row_example_def)
  have f: "Y (cursorStartPos (mainBufferData (snd bottom_row_example))) = 2"
    by (simp add: bottom_row_example_def)
  have g: "cursorScrollOffset (mainBufferData (snd bottom_row_example)) = 0"
    by (simp add: bottom_row_example_def new_BufferData_def)
  from a b c d e f g show ?thesis by blast
qed

section \<open>Alternate buffers in virtualized mode\<close>




















lemma scrolled_by_0: "scrolled_by 0 = sim_start \<lparr>X = 80, Y = 2\<rparr> \<lparr>X = 0, Y = 1\<rparr>"
  by (simp add: scrolled_by_def sim_start_def new_BufferData_def)


section \<open>The scroll offset over many writes\<close>

lemma println_scrolled_by:
  "println sim_api False False (scrolled_by k) = Inr (scrolled_by (k + 1))"
  by (simp add: println_def print_def print_start_def print_finish_def print_char_def
      detect_sequence_def scroll_bookkeeping_def writeToConsole_def getCursorPos_def
      getBufferHandle_def getCurrentBufferData_def setCurrentBufferData_def
      scrolled_by_def sim_api_def new_BufferData_def Let_def
      VIRTUAL_TERMINAL_SEQUENCE_ESCAPE_def)

lemma repeat_println_scrolled_by:
  "repeat_println sim_api False n (scrolled_by k) = Inr (scrolled_by (k + of_nat n))"
proof (induction n arbitrary: k)
  case 0
  then show ?case by simp
next
  case (Suc n)
  then show ?case by (simp add: println_scrolled_by algebra_simps)
qed

lemma getCursorScrollOffset_scrolled_by:
  "getCursorScrollOffset False (snd (scrolled_by k)) = k"
  by (simp add: getCursorScrollOffset_def getCurrentBufferData_def scrolled_by_def)

text \<open>
  C3 fails on the code: \<open>cursorScrollOffset\<close> is a \<open>short\<close> and \<open>print\<close> adds to it
  unchecked. In native mode, with the cursor on the last row of the window, every
  \<open>println(false)\<close> scrolls one line and adds one to the offset of the main buffer. After
  32767 of them \<open>getCursorScrollOffset\<close> returns 32767; after one more it returns -32768.
\<close>

theorem scroll_offset_wraps:
  "repeat_println sim_api False 32767 (sim_start \<lparr>X = 80, Y = 2\<rparr> \<lparr>X = 0, Y = 1\<rparr>)
     = Inr (scrolled_by 32767)
   \<and> println sim_api False False (scrolled_by 32767) = Inr (scrolled_by (- 32768))
   \<and> sint (getCursorScrollOffset False (snd (scrolled_by 32767))) = 32767
   \<and> sint (getCursorScrollOffset False (snd (scrolled_by (- 32768)))) = - 32768"
proof -
  have a: "repeat_println sim_api False 32767 (sim_start \<lparr>X = 80, Y = 2\<rparr> \<lparr>X = 0, Y = 1\<rparr>)
     = Inr (scrolled_by 32767)"
    using repeat_println_scrolled_by [of 32767 0] by (simp add: scrolled_by_0)
  have w: "(32767 + 1 :: short) = - 32768" by code_simp
  have b: "println sim_api False False (scrolled_by 32767) = Inr (scrolled_by (- 32768))"
    using println_scrolled_by [of 32767] unfolding w .
  show ?thesis using a b by (simp add: getCursorScrollOffset_scrolled_by)
qed

section \<open>Overwriting an escape sequence\<close>

text \<open>
  C2 fails on the code. The line \<open>A ESC[90m B C\<close> has the column index \<open>[0, 6, 7]\<close>.
  Writing \<open>Z\<close> at column 1, before the last occupied column, finds the span \<open>[0, 6)\<close>
  longer than one character and erases it, the \<open>A\<close> of column 0 with the sequence; it
  then lowers by 6 the entries from index \<open>startPos = 0\<close> on, a character offset taken
  for a column, so the entry of column 0 wraps below zero. The line is left as \<open>ZC\<close> with
  the column index \<open>[2^64 - 6, 0, 1]\<close>, which is not monotonic.
\<close>

theorem overwrite_escape_sequence_corrupts:
  "print sim_api True (L ''A'' @ getVirtualTerminalSequence (L ''[90mBC'')) True
      (sim_start \<lparr>X = 80, Y = 25\<rparr> \<lparr>X = 0, Y = 1\<rparr>) = Inr after_colour
   \<and> contentsCursorData (mainBufferData (snd after_colour)) = [[0, 6, 7]]
   \<and> print sim_api True (L ''Z'') True
        (snd (setCursorPos sim_api True \<lparr>X = 1, Y = 1\<rparr> after_colour)) = Inr after_overwrite
   \<and> contents (mainBufferData (snd after_overwrite)) = [L ''ZC'']
   \<and> contentsCursorData (mainBufferData (snd after_overwrite)) = [[2 ^ 64 - 6, 0, 1]]
   \<and> \<not> sorted (hd (contentsCursorData (mainBufferData (snd after_overwrite))))"
proof -
  have a: "print sim_api True (L ''A'' @ getVirtualTerminalSequence (L ''[90mBC'')) True
      (sim_start \<lparr>X = 80, Y = 25\<rparr> \<lparr>X = 0, Y = 1\<rparr>) = Inr after_colour"
    by code_simp
  have b: "contentsCursorData (mainBufferData (snd after_colour)) = [[0, 6, 7]]"
    by code_simp
  have c: "print sim_api True (L ''Z'') True
        (snd (setCursorPos sim_api True \<lparr>X = 1, Y = 1\<rparr> after_colour)) = Inr after_overwrite"
    by code_simp
  have d: "contents (mainBufferData (snd after_overwrite)) = [L ''ZC'']"
    by code_simp
  have e: "contentsCursorData (mainBufferData (snd after_overwrite)) = [[2 ^ 64 - 6, 0, 1]]"
    by code_simp
  have f: "\<not> sorted (hd (contentsCursorData (mainBufferData (snd after_overwrite))))"
    by code_simp
  from a b c d e f show ?thesis by blast
qed

section \<open>Escape characters that start no sequence\<close>

lemma strict_clean: "strict m \<Longrightarrow> clean m"
  by (simp add: strict_def)

lemma strict_one:
  assumes "\<not> P VIRTUAL_TERMINAL_SEQUENCE_ESCAPE"
  shows "strict (one P)"
  unfolding strict_def clean_def
proof (intro conjI allI impI)
  fix s r assume a: "one P s = Some r"
  then obtain c where s: "s = c # r" and p: "P c"
    by (cases s) (auto simp add: one_def split: if_splits)
  from p assms have "c \<noteq> VIRTUAL_TERMINAL_SEQUENCE_ESCAPE" by auto
  with s show "\<exists>p. s = p @ r \<and> VIRTUAL_TERMINAL_SEQUENCE_ESCAPE \<notin> set p"
    by (intro exI [of _ "[c]"]) simp
  from s show "length r < length s" by simp
qed

lemma clean_opt:
  assumes "a \<noteq> VIRTUAL_TERMINAL_SEQUENCE_ESCAPE"
  shows "clean (opt a)"
  unfolding clean_def
proof (intro allI impI)
  fix s r assume a: "opt a s = Some r"
  then have "s = r \<or> s = a # r"
    by (cases s) (auto simp add: opt_def split: if_splits)
  then show "\<exists>p. s = p @ r \<and> VIRTUAL_TERMINAL_SEQUENCE_ESCAPE \<notin> set p"
  proof
    assume "s = r" then show ?thesis by (intro exI [of _ "[]"]) simp
  next
    assume "s = a # r" with assms show ?thesis by (intro exI [of _ "[a]"]) simp
  qed
qed

lemma is_digit_not_escape: "is_digit c \<Longrightarrow> c \<noteq> VIRTUAL_TERMINAL_SEQUENCE_ESCAPE"
  by (auto simp add: is_digit_def VIRTUAL_TERMINAL_SEQUENCE_ESCAPE_def)

lemma clean_digits: "clean (digits lo hi)"
  unfolding clean_def
proof (intro allI impI)
  fix s r assume a: "digits lo hi s = Some r"
  let ?p = "takeWhile is_digit (take hi s)"
  from a have r: "r = drop (length ?p) s"
    by (auto simp add: digits_def Let_def split: if_splits)
  have "?p @ dropWhile is_digit (take hi s) @ drop hi s = s"
    by (metis append_assoc append_take_drop_id takeWhile_dropWhile_id)
  then have "s = ?p @ drop (length ?p) s"
    by (metis append_eq_conv_conj)
  moreover have "VIRTUAL_TERMINAL_SEQUENCE_ESCAPE \<notin> set ?p"
    using is_digit_not_escape by (metis set_takeWhileD)
  ultimately show "\<exists>p. s = p @ r \<and> VIRTUAL_TERMINAL_SEQUENCE_ESCAPE \<notin> set p"
    unfolding r by blast
qed

lemma lit_Some: "lit ps s = Some r \<Longrightarrow> s = ps @ r"
  by (induction ps s rule: lit.induct) (auto split: if_splits)

lemma clean_lit:
  assumes "VIRTUAL_TERMINAL_SEQUENCE_ESCAPE \<notin> set ps"
  shows "clean (lit ps)"
  unfolding clean_def using assms lit_Some by blast

lemma strict_lit:
  assumes "VIRTUAL_TERMINAL_SEQUENCE_ESCAPE \<notin> set ps" and "ps \<noteq> []"
  shows "strict (lit ps)"
  unfolding strict_def using clean_lit [OF assms(1)] assms(2) lit_Some by fastforce

lemma clean_seq:
  assumes "\<forall>m \<in> set ms. clean m"
  shows "clean (seq ms)"
  using assms
proof (induction ms)
  case Nil
  show ?case unfolding clean_def by (intro allI impI exI [of _ "[]"]) simp
next
  case (Cons m ms)
  then have m: "clean m" and ms: "clean (seq ms)" by simp_all
  show ?case unfolding clean_def
  proof (intro allI impI)
    fix s r assume "seq (m # ms) s = Some r"
    then obtain t where a: "m s = Some t" and b: "seq ms t = Some r"
      by (auto split: option.splits)
    from m a obtain p where p: "s = p @ t" "VIRTUAL_TERMINAL_SEQUENCE_ESCAPE \<notin> set p"
      unfolding clean_def by blast
    from ms b obtain q where q: "t = q @ r" "VIRTUAL_TERMINAL_SEQUENCE_ESCAPE \<notin> set q"
      unfolding clean_def by blast
    from p q show "\<exists>p. s = p @ r \<and> VIRTUAL_TERMINAL_SEQUENCE_ESCAPE \<notin> set p"
      by (intro exI [of _ "p @ q"]) simp
  qed
qed

lemma clean_length: "clean m \<Longrightarrow> m s = Some r \<Longrightarrow> length r \<le> length s"
  unfolding clean_def by fastforce

lemma clean_seq_Nil: "clean (seq [])"
  by (rule clean_seq) simp

lemma clean_seq_Cons: "clean m \<Longrightarrow> clean (seq ms) \<Longrightarrow> clean (seq (m # ms))"
  unfolding clean_def
proof (intro allI impI)
  fix s r
  assume m: "\<forall>s r. m s = Some r \<longrightarrow> (\<exists>p. s = p @ r \<and> VIRTUAL_TERMINAL_SEQUENCE_ESCAPE \<notin> set p)"
    and ms: "\<forall>s r. seq ms s = Some r \<longrightarrow> (\<exists>p. s = p @ r \<and> VIRTUAL_TERMINAL_SEQUENCE_ESCAPE \<notin> set p)"
    and a: "seq (m # ms) s = Some r"
  from a obtain t where a1: "m s = Some t" and a2: "seq ms t = Some r"
    by (auto split: option.splits)
  from m a1 obtain p where p: "s = p @ t" "VIRTUAL_TERMINAL_SEQUENCE_ESCAPE \<notin> set p" by blast
  from ms a2 obtain q where q: "t = q @ r" "VIRTUAL_TERMINAL_SEQUENCE_ESCAPE \<notin> set q" by blast
  from p q show "\<exists>p. s = p @ r \<and> VIRTUAL_TERMINAL_SEQUENCE_ESCAPE \<notin> set p"
    by (intro exI [of _ "p @ q"]) simp
qed

lemma strict_seq_head: "strict m \<Longrightarrow> clean (seq ms) \<Longrightarrow> strict (seq (m # ms))"
  unfolding strict_def
proof (intro conjI allI impI)
  assume m: "clean m \<and> (\<forall>s r. m s = Some r \<longrightarrow> length r < length s)" and ms: "clean (seq ms)"
  then show "clean (seq (m # ms))" by (simp add: clean_seq_Cons)
  fix s r assume "seq (m # ms) s = Some r"
  then obtain t where a: "m s = Some t" and b: "seq ms t = Some r"
    by (auto split: option.splits)
  from m a have "length t < length s" by blast
  moreover from clean_length [OF ms b] have "length r \<le> length t" .
  ultimately show "length r < length s" by simp
qed

lemma strict_seq_tail: "clean m \<Longrightarrow> strict (seq ms) \<Longrightarrow> strict (seq (m # ms))"
  unfolding strict_def
proof (intro conjI allI impI)
  assume m: "clean m" and ms: "clean (seq ms) \<and> (\<forall>s r. seq ms s = Some r \<longrightarrow> length r < length s)"
  then show "clean (seq (m # ms))" by (simp add: clean_seq_Cons)
  fix s r assume "seq (m # ms) s = Some r"
  then obtain t where a: "m s = Some t" and b: "seq ms t = Some r"
    by (auto split: option.splits)
  from ms b have "length r < length t" by blast
  moreover from clean_length [OF m a] have "length t \<le> length s" .
  ultimately show "length r < length s" by simp
qed

lemma strict_first_of_Nil: "strict (first_of [])"
  by (simp add: strict_def clean_def)

lemma strict_first_of_Cons: "strict m \<Longrightarrow> strict (first_of ms) \<Longrightarrow> strict (first_of (m # ms))"
proof -
  assume m: "strict m" and ms: "strict (first_of ms)"
  have "first_of (m # ms) s = Some r \<Longrightarrow> m s = Some r \<or> first_of ms s = Some r" for s r
    by (auto split: option.splits)
  with m ms show ?thesis unfolding strict_def clean_def by blast
qed

lemma scanner_pieces:
  "clean (opt 0x3F)" "clean (opt 0x20)"
  "strict (one is_alpha)"
  "strict (one (\<lambda>c. c = 0x66 \<or> c = 0x48))"
  "strict (one (\<lambda>c. c = 0x33 \<or> c = 0x34))"
  "strict (one (\<lambda>c. c = 0x32 \<or> c = 0x35))"
  "strict (one (\<lambda>c. is_word c \<or> c = 0x3D \<or> c = 0x3E))"
  "strict (one (\<lambda>c. c = 0x30 \<or> c = 0x42))"
  "strict (lit (L ''[''))" "strict (lit (L ''!p''))" "strict (lit (L '';''))"
  "strict (lit (L ''8;''))" "strict (lit (L ''(''))" "strict (lit (L '']4;''))"
  "strict (lit (L '';rgb;''))" "strict (lit [0x07])"
  by (auto intro!: clean_opt strict_one strict_lit
       simp add: is_word_def is_alpha_def is_digit_def VIRTUAL_TERMINAL_SEQUENCE_ESCAPE_def L_def)

lemmas scanner_rules =
  scanner_pieces clean_digits strict_clean clean_seq_Nil clean_seq_Cons
  strict_seq_head strict_seq_tail strict_first_of_Nil strict_first_of_Cons

lemma strict_csi_sequence: "strict csi_sequence"
  unfolding csi_sequence_def by (fast intro: scanner_rules)

lemma strict_osc_sequence: "strict osc_sequence"
  unfolding osc_sequence_def by (fast intro: scanner_rules)

lemma strict_sequence_body: "strict sequence_body"
  unfolding sequence_body_def
  by (fast intro: scanner_rules strict_csi_sequence strict_osc_sequence)

lemma TERMINAL_SEQUENCE_REGEX_Some:
  assumes "TERMINAL_SEQUENCE_REGEX s = Some n"
  shows "2 \<le> n \<and> n \<le> length s
       \<and> (\<forall>i. 0 < i \<and> i < n \<longrightarrow> s ! i \<noteq> VIRTUAL_TERMINAL_SEQUENCE_ESCAPE)"
proof -
  from assms obtain c t r where s: "s = c # t" and b: "sequence_body t = Some r"
    and n: "n = length s - length r"
    by (cases s) (auto simp add: TERMINAL_SEQUENCE_REGEX_def split: if_splits)
  from strict_sequence_body b obtain p where
    p: "t = p @ r" "VIRTUAL_TERMINAL_SEQUENCE_ESCAPE \<notin> set p" and l: "length r < length t"
    unfolding strict_def clean_def by blast
  from s p n have n': "n = Suc (length p)" by simp
  have "s ! i \<noteq> VIRTUAL_TERMINAL_SEQUENCE_ESCAPE" if "0 < i" "i < n" for i
  proof -
    from that n' obtain j where j: "i = Suc j" "j < length p" by (cases i) auto
    with s p have "s ! i = p ! j" by (simp add: nth_append)
    with j p(2) show ?thesis by (metis nth_mem)
  qed
  moreover from l p n' have "2 \<le> n" by (cases p) simp_all
  moreover from s p n' have "n \<le> length s" by simp
  ultimately show ?thesis by blast
qed

lemma print_steps_length: "print_steps (length s) atb oy w s l = print_loop atb oy w s l"
proof (induction s arbitrary: l)
  case Nil
  then show ?case by simp
next
  case (Cons c cs)
  then show ?case by (cases "print_char atb oy w (c # cs) l") (simp_all add: and_then_def)
qed

lemma advance_cursor_scan:
  "isDetectedTerminalSequence (advance_cursor w c l) = isDetectedTerminalSequence l
   \<and> termSeqEndPos (advance_cursor w c l) = termSeqEndPos l"
  by (simp add: advance_cursor_def Let_def)

lemma add_to_buffer_scan:
  assumes "add_to_buffer oy w c l = Inr l'"
  shows "isDetectedTerminalSequence l' = isDetectedTerminalSequence l
       \<and> termSeqEndPos l' = termSeqEndPos l \<and> strPos l' = strPos l"
  using assms
  by (auto simp add: add_to_buffer_def Let_def and_then_Inr_iff advance_cursor_scan
        advance_cursor_frame split: if_splits)

lemma detect_sequence_inv:
  assumes "scan_inv (c # cs) l"
  shows "scan_inv cs ((detect_sequence (c # cs) l)\<lparr>strPos := strPos l + 1\<rparr>)"
proof (cases "c = VIRTUAL_TERMINAL_SEQUENCE_ESCAPE")
  case True
  show ?thesis
  proof (cases "TERMINAL_SEQUENCE_REGEX (c # cs)")
    case None
    from assms True have "\<not> (isDetectedTerminalSequence l \<and> strPos l \<le> termSeqEndPos l)"
      unfolding scan_inv_def by (auto dest: spec [of _ 0])
    with True None show ?thesis
      by (auto simp add: detect_sequence_def scan_inv_def Let_def)
  next
    case (Some n)
    from TERMINAL_SEQUENCE_REGEX_Some [OF Some]
    have n: "2 \<le> n" and e: "\<And>i. 0 < i \<Longrightarrow> i < n \<Longrightarrow> (c # cs) ! i \<noteq> VIRTUAL_TERMINAL_SEQUENCE_ESCAPE"
      by blast+
    have "cs ! i \<noteq> VIRTUAL_TERMINAL_SEQUENCE_ESCAPE" if "strPos l + 1 + i \<le> strPos l + n - 1" for i
      using e [of "Suc i"] that n by simp
    with True Some show ?thesis
      by (auto simp add: detect_sequence_def scan_inv_def Let_def)
  qed
next
  case False
  have "cs ! i \<noteq> VIRTUAL_TERMINAL_SEQUENCE_ESCAPE"
    if "isDetectedTerminalSequence l" "strPos l + 1 + i \<le> termSeqEndPos l" "i < length cs" for i
    using assms that unfolding scan_inv_def by (auto dest!: spec [of _ "Suc i"])
  with False show ?thesis
    by (auto simp add: detect_sequence_def scan_inv_def Let_def)
qed

lemma print_char_inv:
  assumes "scan_inv (c # cs) l" and "print_char atb oy w (c # cs) l = Inr l'"
  shows "scan_inv cs l'"
proof -
  let ?d = "detect_sequence (c # cs) l"
  from assms(2) obtain l2 where
    a: "(if atb then add_to_buffer oy w c ?d else Inr ?d) = Inr l2"
    and b: "l' = l2\<lparr>newlineCount := (if c = 0x0A then newlineCount l2 + 1 else newlineCount l2),
                    strLength := strLength l2 + 1, strPos := strPos l2 + 1\<rparr>"
    by (auto simp add: print_char_def Let_def and_then_Inr_iff)
  have c: "isDetectedTerminalSequence l2 = isDetectedTerminalSequence ?d
       \<and> termSeqEndPos l2 = termSeqEndPos ?d \<and> strPos l2 = strPos l"
  proof (cases atb)
    case True
    with a have "add_to_buffer oy w c ?d = Inr l2" by simp
    from add_to_buffer_scan [OF this] show ?thesis by (simp add: detect_sequence_frame)
  next
    case False
    with a show ?thesis by (auto simp add: detect_sequence_frame)
  qed
  from detect_sequence_inv [OF assms(1)] c show ?thesis
    unfolding b scan_inv_def by simp
qed

lemma print_steps_inv:
  assumes "scan_inv s l" and "print_steps p atb oy w s l = Inr l'"
  shows "scan_inv (drop p s) l'"
  using assms
proof (induction p atb oy w s l rule: print_steps.induct)
  case (1 atb oy w s l)
  then show ?case by simp
next
  case (2 n atb oy w l)
  then show ?case by simp
next
  case (3 n atb oy w c cs l)
  from "3.prems"(2) obtain l1 where
    a: "print_char atb oy w (c # cs) l = Inr l1" and b: "print_steps n atb oy w cs l1 = Inr l'"
    by (auto simp add: and_then_Inr_iff)
  from print_char_inv [OF "3.prems"(1) a] have "scan_inv cs l1" .
  from "3.IH" [OF this b] show ?case by simp
qed

text \<open>
  C9. Run the loop of \<open>print\<close> from its start over the first \<open>p\<close> characters of a text,
  and let the character at \<open>p\<close> be an escape character at which the pattern does not
  match. Then the scanning step leaves \<open>isDetectedTerminalSequence\<close> false, and when the
  text is added to the buffer and the turn of the loop returns, the cursor has moved on
  by exactly one column (wrapped at the width of the window), as for any character that
  is not a line feed. The scanner itself has an answer for every text: no match, or a
  length between 2 and the length of the text, so it reads nothing outside the text.
\<close>

theorem unmatched_escape_is_ordinary:
  assumes start: "\<not> isDetectedTerminalSequence l0"
    and upto: "print_steps p addToBuffer originY windowWidth s l0 = Inr l"
    and here: "p < length s" "s ! p = VIRTUAL_TERMINAL_SEQUENCE_ESCAPE"
    and unmatched: "TERMINAL_SEQUENCE_REGEX (drop p s) = None"
  shows "\<not> isDetectedTerminalSequence (detect_sequence (drop p s) l)
       \<and> (\<forall>l'. print_char True originY windowWidth (drop p s) l = Inr l' \<longrightarrow>
             currentCursorPos l' = next_column windowWidth (currentCursorPos l)
             \<and> \<not> isDetectedTerminalSequence l' \<and> termSeqLength l' = 0)
       \<and> (TERMINAL_SEQUENCE_REGEX t = None
            \<or> (\<exists>n. TERMINAL_SEQUENCE_REGEX t = Some n \<and> 2 \<le> n \<and> n \<le> length t))"
proof -
  from start have "scan_inv s l0" by (simp add: scan_inv_def)
  from print_steps_inv [OF this upto] have inv: "scan_inv (drop p s) l" .
  from here obtain cs where d: "drop p s = VIRTUAL_TERMINAL_SEQUENCE_ESCAPE # cs"
    by (metis Cons_nth_drop_Suc)
  from inv d have off: "\<not> (isDetectedTerminalSequence l \<and> strPos l \<le> termSeqEndPos l)"
    unfolding scan_inv_def by (auto dest: spec [of _ 0])
  let ?d = "detect_sequence (drop p s) l"
  from off unmatched d have flag: "\<not> isDetectedTerminalSequence ?d"
    by (auto simp add: detect_sequence_def Let_def)
  have cur: "currentCursorPos ?d = currentCursorPos l"
    by (simp add: detect_sequence_def Let_def split: option.splits)
  have step: "currentCursorPos l' = next_column windowWidth (currentCursorPos l)
             \<and> \<not> isDetectedTerminalSequence l' \<and> termSeqLength l' = 0"
    if "print_char True originY windowWidth (drop p s) l = Inr l'" for l'
  proof -
    from that d obtain l2 where
      a: "add_to_buffer originY windowWidth VIRTUAL_TERMINAL_SEQUENCE_ESCAPE ?d = Inr l2"
      and b: "l' = l2\<lparr>newlineCount := (if VIRTUAL_TERMINAL_SEQUENCE_ESCAPE = 0x0A
                                        then newlineCount l2 + 1 else newlineCount l2),
                      strLength := strLength l2 + 1, strPos := strPos l2 + 1\<rparr>"
      by (auto simp add: print_char_def Let_def and_then_Inr_iff)
    from a flag cur have "currentCursorPos l2 = next_column windowWidth (currentCursorPos l)
        \<and> \<not> isDetectedTerminalSequence l2 \<and> termSeqLength l2 = 0"
      by (auto simp add: add_to_buffer_def Let_def and_then_Inr_iff advance_cursor_def
            next_column_def VIRTUAL_TERMINAL_SEQUENCE_ESCAPE_def split: if_splits)
    then show ?thesis unfolding b by simp
  qed
  have total: "TERMINAL_SEQUENCE_REGEX t = None
            \<or> (\<exists>n. TERMINAL_SEQUENCE_REGEX t = Some n \<and> 2 \<le> n \<and> n \<le> length t)"
    using TERMINAL_SEQUENCE_REGEX_Some [of t] by (cases "TERMINAL_SEQUENCE_REGEX t") auto
  from flag step total show ?thesis by blast
qed

theorem unmatched_escape_is_ordinary_witness:
  "\<not> isDetectedTerminalSequence stray_escape_start
   \<and> print_steps 1 True 1 80 stray_escape stray_escape_start
       = Inr (projr (print_steps 1 True 1 80 stray_escape stray_escape_start))
   \<and> 1 < length stray_escape
   \<and> stray_escape ! 1 = VIRTUAL_TERMINAL_SEQUENCE_ESCAPE
   \<and> TERMINAL_SEQUENCE_REGEX (drop 1 stray_escape) = None
   \<and> print_char True 1 80 (drop 1 stray_escape)
        (projr (print_steps 1 True 1 80 stray_escape stray_escape_start))
       = Inr (projr (print_steps 2 True 1 80 stray_escape stray_escape_start))
   \<and> currentCursorPos (projr (print_steps 1 True 1 80 stray_escape stray_escape_start))
       = \<lparr>X = 1, Y = 1\<rparr>
   \<and> currentCursorPos (projr (print_steps 2 True 1 80 stray_escape stray_escape_start))
       = \<lparr>X = 2, Y = 1\<rparr>
   \<and> contentsCursorData (bufferData
         (projr (print_steps 2 True 1 80 stray_escape stray_escape_start))) = [[0, 1]]"
proof -
  let ?l1 = "projr (print_steps 1 True 1 80 stray_escape stray_escape_start)"
  let ?l2 = "projr (print_steps 2 True 1 80 stray_escape stray_escape_start)"
  have a: "\<not> isDetectedTerminalSequence stray_escape_start" by code_simp
  have b: "print_steps 1 True 1 80 stray_escape stray_escape_start = Inr ?l1" by code_simp
  have c: "1 < length stray_escape" by code_simp
  have d: "stray_escape ! 1 = VIRTUAL_TERMINAL_SEQUENCE_ESCAPE" by code_simp
  have e: "TERMINAL_SEQUENCE_REGEX (drop 1 stray_escape) = None" by code_simp
  have f: "print_char True 1 80 (drop 1 stray_escape) ?l1 = Inr ?l2" by code_simp
  have g: "currentCursorPos ?l1 = \<lparr>X = 1, Y = 1\<rparr>" by code_simp
  have h: "next_column 80 \<lparr>X = 1, Y = 1\<rparr> = \<lparr>X = 2, Y = 1\<rparr>" by code_simp
  have i: "contentsCursorData (bufferData ?l2) = [[0, 1]]" by code_simp
  from unmatched_escape_is_ordinary [OF a b c d e] f
  have "currentCursorPos ?l2 = next_column 80 (currentCursorPos ?l1)" by blast
  with g h have "currentCursorPos ?l2 = \<lparr>X = 2, Y = 1\<rparr>" by simp
  with a b c d e f g i show ?thesis by blast
qed

section \<open>Restoring a saved cursor\<close>

text \<open>
  C8. On an engine whose current buffer has no saved cursor, \<open>restoreSavedCursorPos\<close>
  returns the empty optional; it is not a failure, and neither the engine nor the
  console (its cursor included) changes.
\<close>

theorem restoreSavedCursorPos_empty:
  assumes "savedCursors (getCurrentBufferData custom False ob) = []"
  shows "restoreSavedCursorPos api custom (h, ob) = (None, h, ob)"
  using assms by (simp add: restoreSavedCursorPos_def)

theorem restoreSavedCursorPos_empty_witness:
  "savedCursors (getCurrentBufferData True False
      (snd (sim_start \<lparr>X = 80, Y = 25\<rparr> \<lparr>X = 3, Y = 4\<rparr>))) = []
   \<and> restoreSavedCursorPos sim_api True (sim_start \<lparr>X = 80, Y = 25\<rparr> \<lparr>X = 3, Y = 4\<rparr>)
       = (None, sim_start \<lparr>X = 80, Y = 25\<rparr> \<lparr>X = 3, Y = 4\<rparr>)"
proof -
  have e: "savedCursors (getCurrentBufferData True False
      (snd (sim_start \<lparr>X = 80, Y = 25\<rparr> \<lparr>X = 3, Y = 4\<rparr>))) = []"
    by (simp add: sim_start_def getCurrentBufferData_def new_BufferData_def)
  show ?thesis
    using e restoreSavedCursorPos_empty [OF e, of sim_api "fst (sim_start \<lparr>X = 80, Y = 25\<rparr> \<lparr>X = 3, Y = 4\<rparr>)"]
    by simp
qed

section \<open>Expiry of a status message\<close>

text \<open>
  What the code answers about a status message issued at time \<open>T\<close> (a timestamp after
  the epoch): \<open>hasExpiredStatusMessage\<close> answers true when asked at a time later than
  \<open>T + 5\<close> and false at \<open>T + 5\<close> and before. A true answer resets the issue time, so the
  next call, at whatever time, answers false.
\<close>

lemma hasExpiredStatusMessage_issued:
  assumes "statusMessage m \<noteq> []" and "0 < T"
  shows "(fst (hasExpiredStatusMessage now (snd (issueStatusMessage T m))) \<longleftrightarrow> T + 5 < now)
       \<and> (fst (hasExpiredStatusMessage now (snd (issueStatusMessage T m))) \<longrightarrow>
            \<not> fst (hasExpiredStatusMessage later
                     (snd (hasExpiredStatusMessage now (snd (issueStatusMessage T m))))))"
  using assms
  by (auto simp add: hasExpiredStatusMessage_def issueStatusMessage_def
        STATUS_MESSAGE_LIFETIME_def difftime_def Let_def)

text \<open>
  C7 fails on the code. \<open>STATUS_MESSAGE_LIFETIME = 5\<close> is, by its comment (Console.h,
  2117 to 2121), the maximum time in seconds a status message is displayed before it
  expires. Line 1047 of Console.cpp tests \<open>difftime(now, issued) > 5\<close>, so a message
  issued at time 100 has not expired at time 105, five seconds later, and expires at
  time 106: with timestamps in whole seconds it is displayed for longer than its
  lifetime.
\<close>

theorem status_message_outlives_lifetime:
  "STATUS_MESSAGE_LIFETIME = 5
   \<and> \<not> fst (hasExpiredStatusMessage (100 + 5)
            (snd (issueStatusMessage 100 (setStatusMessage (L ''Saved'') (new_MenuOptionList [])))))
   \<and> fst (hasExpiredStatusMessage (100 + 6)
          (snd (issueStatusMessage 100 (setStatusMessage (L ''Saved'') (new_MenuOptionList [])))))"
  by (simp add: hasExpiredStatusMessage_def issueStatusMessage_def setStatusMessage_def
        STATUS_MESSAGE_LIFETIME_def difftime_def L_def)

section \<open>Moving the selection with the arrow keys\<close>

text \<open>
  What the navigation action leaves of the list: redrawing the menu and moving the
  marker change neither the options nor the selection recorded in the list, so a press
  of the Down key is the step computed by \<open>arrow_move\<close> and nothing else.
\<close>

lemma printMenuOptions_keeps:
  assumes "printMenuOptions api custom instructions b (m, w) = Inr (m', w')"
  shows "options m' = options m \<and> selectedOptionNum m' = selectedOptionNum m"
  using assms
  apply (simp only: printMenuOptions_def Let_def split_def fst_conv snd_conv)
  apply (erule and_then_InrE)+
  subgoal premises prems for a b c d
    using prems(5)
    by (auto simp add: setBottomMenuOptionNum_def split: if_splits option.splits)
  done

lemma scroll_menu_keeps:
  assumes "scroll_menu api custom prev new (m, w) = Inr (m', w')"
  shows "options m' = options m \<and> selectedOptionNum m' = selectedOptionNum m"
proof -
  from assms obtain start m1 a where
    m1: "(if new < topMenuOptionNum m
          then Inr (if topMenuOptionNum m > 0
                    then setTopMenuOptionNum
                           (sub_size_t (topMenuOptionNum m) (sub_size_t prev new)) m
                    else m)
          else if bottomMenuOptionNum m < size_minus_one (length (options m))
          then and_then (advance_top (options m) new (topMenuOptionNum m))
                 (\<lambda>newTop. Inr (setTopMenuOptionNum newTop m))
          else Inr m) = Inr m1"
    and p: "printMenuOptions api custom [] False
              (m1, snd (setCursorPos api custom (start\<lparr>X := X start - 2\<rparr>)
                          (snd (saveCursorPos api custom w)))) = Inr a"
    and r: "m' = fst a"
    by (auto simp add: scroll_menu_def Let_def split: option.splits elim!: and_then_InrE)
  from m1 have "options m1 = options m \<and> selectedOptionNum m1 = selectedOptionNum m"
    by (auto simp add: setTopMenuOptionNum_def split: if_splits elim!: and_then_InrE)
  moreover from p r have "options m' = options m1 \<and> selectedOptionNum m' = selectedOptionNum m1"
    using printMenuOptions_keeps [of api custom "[]" False m1 _ "fst a" "snd a"] by simp
  ultimately show ?thesis by simp
qed

lemma move_marker_keeps:
  assumes "move_marker api custom prev new (m, w) = Inr (m', w')"
  shows "m' = m"
  using assms
  by (auto simp add: move_marker_def Let_def split: option.splits elim!: and_then_InrE)

lemma arrow_move_down:
  assumes "\<forall>x \<in> set opts. \<not> disabled x" and "k < length opts"
  shows "arrow_move True opts (k, False, False)
       = Inr (if Suc k < length opts then (Suc k, True, False) else (k, False, False))"
  using assms
  by (subst arrow_move.simps) (auto simp add: arrow_step_def size_minus_one_def)

lemma arrow_move_up_first:
  assumes "opts \<noteq> []"
  shows "arrow_move False opts (0, False, False) = Inr (0, False, False)"
  using assms
  by (subst arrow_move.simps) (auto simp add: arrow_step_def size_minus_one_def)

lemma select_by_key_down:
  assumes "\<forall>x \<in> set (options m). \<not> disabled x" and "k < length (options m)"
  shows "select_by_key KEY_DOWN m k
       = Inr (if Suc k < length (options m) then (Suc k, True, False) else (k, False, False))"
  using arrow_move_down [OF assms]
  by (simp add: select_by_key_def KEY_DOWN_def)

lemma navigation_up_first:
  assumes "options m \<noteq> []"
  shows "DEFAULT_NAVIGATION_ACTIONS api custom KEY_UP (m, w, Some 0) = Inr ((False, False), m, w, Some 0)"
  using arrow_move_up_first [OF assms]
  by (simp add: DEFAULT_NAVIGATION_ACTIONS_def select_by_key_def KEY_UP_def VK_UP_def VK_DOWN_def)

lemma navigation_down:
  assumes nd: "\<forall>x \<in> set (options m). \<not> disabled x" and k: "k < length (options m)"
    and r: "DEFAULT_NAVIGATION_ACTIONS api custom KEY_DOWN (m, w, Some k) = Inr (stop, m', w', cur')"
  shows "options m' = options m \<and> cur' = Some (min (Suc k) (length (options m) - 1))
       \<and> (selectedOptionNum m = Some k \<longrightarrow> selectedOptionNum m' = cur')"
proof (cases "Suc k < length (options m)")
  case False
  with select_by_key_down [OF nd k] r k show ?thesis
    by (auto simp add: DEFAULT_NAVIGATION_ACTIONS_def Let_def min_def)
next
  case True
  let ?m1 = "setSelectedOption (Suc k) m"
  have m1: "options ?m1 = options m" "selectedOptionNum ?m1 = Some (Suc k)"
    using True by (simp_all add: setSelectedOption_def isValidOption_def)
  from select_by_key_down [OF nd k] True
  have s: "select_by_key KEY_DOWN m k = Inr (Suc k, True, False)" by simp
  have "options m' = options ?m1 \<and> selectedOptionNum m' = selectedOptionNum ?m1
      \<and> cur' = Some (Suc k)"
  proof (cases "Suc k < topMenuOptionNum m \<or> bottomMenuOptionNum m < Suc k")
    case True
    with r s obtain w2 where "scroll_menu api custom k (Suc k) (?m1, w) = Inr (m', w2)"
      and "cur' = Some (Suc k)"
      by (auto simp add: DEFAULT_NAVIGATION_ACTIONS_def Let_def elim!: and_then_InrE)
    with scroll_menu_keeps [of api custom k "Suc k" ?m1 w m'] show ?thesis by blast
  next
    case False
    with r s obtain w2 where "move_marker api custom k (Suc k) (?m1, w) = Inr (m', w2)"
      and "cur' = Some (Suc k)"
      by (auto simp add: DEFAULT_NAVIGATION_ACTIONS_def Let_def elim!: and_then_InrE)
    with move_marker_keeps [of api custom k "Suc k" ?m1 w m'] show ?thesis by auto
  qed
  with m1 True show ?thesis by (simp add: min_def)
qed

lemma press_down_from:
  assumes "\<forall>x \<in> set (options m). \<not> disabled x" and "k < length (options m)"
    and "press_down api custom n (m, w, Some k) = Inr (m', w', cur')"
  shows "options m' = options m \<and> cur' = Some (min (k + n) (length (options m) - 1))
       \<and> (selectedOptionNum m = Some k \<longrightarrow> selectedOptionNum m' = cur')"
  using assms
proof (induction n arbitrary: m w k)
  case 0
  then show ?case by simp
next
  case (Suc n)
  from Suc.prems(3) obtain stop m1 w1 cur1 where
    a: "DEFAULT_NAVIGATION_ACTIONS api custom KEY_DOWN (m, w, Some k) = Inr (stop, m1, w1, cur1)"
    and b: "press_down api custom n (m1, w1, cur1) = Inr (m', w', cur')"
    by (auto elim!: and_then_InrE)
  let ?k1 = "min (Suc k) (length (options m) - 1)"
  from navigation_down [OF Suc.prems(1,2) a]
  have o: "options m1 = options m" and c: "cur1 = Some ?k1"
    and s: "selectedOptionNum m = Some k \<longrightarrow> selectedOptionNum m1 = Some ?k1"
    by simp_all
  from Suc.prems(2) have k1: "?k1 < length (options m1)" unfolding o by simp
  from Suc.prems(1) o have nd1: "\<forall>x \<in> set (options m1). \<not> disabled x" by simp
  from b c have b': "press_down api custom n (m1, w1, Some ?k1) = Inr (m', w', cur')" by simp
  from Suc.IH [OF nd1 k1 b']
  have r: "options m' = options m1" "cur' = Some (min (?k1 + n) (length (options m1) - 1))"
    "selectedOptionNum m1 = Some ?k1 \<longrightarrow> selectedOptionNum m' = cur'"
    by simp_all
  from r o s show ?case
    by (auto simp add: min_def)
qed

text \<open>
  C6. A list with at least one option, none of them disabled, has its first option
  selected, in the list and in \<open>currentSelectionNum\<close>. When the navigation action has
  been called \<open>n\<close> times with the Down key and has returned each time, the selection is
  the option \<open>n\<close>, or the last option when \<open>n\<close> is beyond it: \<open>N - 1\<close> presses reach
  the last of \<open>N\<close> options and further presses stay there. Called with the Up key on the
  first option, the action changes nothing and asks for no stop.
\<close>

theorem down_up_navigation:
  assumes "options m \<noteq> []" and "\<forall>x \<in> set (options m). \<not> disabled x"
    and "selectedOptionNum m = Some 0"
    and "press_down api custom n (m, w, Some 0) = Inr (m', w', cur')"
  shows "cur' = Some (min n (length (options m) - 1))
       \<and> selectedOptionNum m' = cur'
       \<and> DEFAULT_NAVIGATION_ACTIONS api custom KEY_UP (m, w, Some 0)
           = Inr ((False, False), m, w, Some 0)"
proof -
  from assms(1) have "0 < length (options m)" by simp
  from press_down_from [OF assms(2) this assms(4)] assms(3)
  have "cur' = Some (min n (length (options m) - 1))" and "selectedOptionNum m' = cur'"
    by simp_all
  with navigation_up_first [OF assms(1)] show ?thesis by simp
qed

theorem down_up_navigation_witness:
  "map disabled (options ((fst three_options_drawn)\<lparr>selectedOptionNum := Some 0\<rparr>))
     = [False, False, False]
   \<and> (\<exists>m' w'. press_down sim_api True 4
                 ((fst three_options_drawn)\<lparr>selectedOptionNum := Some 0\<rparr>,
                  snd three_options_drawn, Some 0) = Inr (m', w', Some 2)
              \<and> selectedOptionNum m' = Some 2)
   \<and> DEFAULT_NAVIGATION_ACTIONS sim_api True KEY_UP
        ((fst three_options_drawn)\<lparr>selectedOptionNum := Some 0\<rparr>, snd three_options_drawn, Some 0)
      = Inr ((False, False), (fst three_options_drawn)\<lparr>selectedOptionNum := Some 0\<rparr>,
             snd three_options_drawn, Some 0)"
proof -
  let ?M = "(fst three_options_drawn)\<lparr>selectedOptionNum := Some 0\<rparr>"
  let ?W = "snd three_options_drawn"
  have a: "map disabled (options ?M) = [False, False, False]"
    by code_simp
  have b: "options ?M \<noteq> []"
    by code_simp
  have c: "\<forall>x \<in> set (options ?M). \<not> disabled x"
    by code_simp
  have d: "selectedOptionNum ?M = Some 0"
    by simp
  have e: "\<not> isl (press_down sim_api True 4 (?M, ?W, Some 0))"
    by code_simp
  then obtain m' w' cur' where r: "press_down sim_api True 4 (?M, ?W, Some 0) = Inr (m', w', cur')"
    by (cases "press_down sim_api True 4 (?M, ?W, Some 0)") auto
  have f: "min 4 (length (options ?M) - 1) = 2"
    by code_simp
  from down_up_navigation [OF b c d r] f
  have "cur' = Some 2" and "selectedOptionNum m' = Some 2"
    and "DEFAULT_NAVIGATION_ACTIONS sim_api True KEY_UP (?M, ?W, Some 0)
           = Inr ((False, False), ?M, ?W, Some 0)"
    by simp_all
  with a r show ?thesis by blast
qed

section \<open>Selecting with a digit key\<close>

text \<open>
  C5 fails on the code. The loop of lines 744 to 753 leaves an option that has a hotkey
  of its own by \<open>continue\<close>, which adds one to the counter \<open>i\<close> and leaves
  \<open>newSelectionNum\<close> on that option: the walk never passes it. On the drawn list
  \<open>1) Alpha\<close>, \<open>b) Beta\<close>, \<open>2) Gamma\<close> the key \<open>2\<close> selects the option 1, \<open>Beta\<close>,
  which has the hotkey \<open>b\<close>, and stops the processing of the list; the second option
  without a hotkey is the option 2, \<open>Gamma\<close>.
\<close>

theorem digit_key_stalls_at_hotkey:
  "topMenuOptionNum (fst three_options_drawn) = 0
   \<and> map hotkey (options (fst three_options_drawn)) = [None, Some 0x62, None]
   \<and> (\<exists>m' w'. DEFAULT_NAVIGATION_ACTIONS sim_api True (digit_key 2)
                 (fst three_options_drawn, snd three_options_drawn, Some 0)
               = Inr ((True, True), m', w', Some 1)
              \<and> selectedOptionNum m' = Some 1)"
proof -
  let ?r = "DEFAULT_NAVIGATION_ACTIONS sim_api True (digit_key 2)
              (fst three_options_drawn, snd three_options_drawn, Some 0)"
  have a: "topMenuOptionNum (fst three_options_drawn) = 0"
    by code_simp
  have b: "map hotkey (options (fst three_options_drawn)) = [None, Some 0x62, None]"
    by code_simp
  have "map_sum id (\<lambda>(stop, m, w, cur). (stop, selectedOptionNum m, cur)) ?r
      = Inr ((True, True), Some 1, Some 1)"
    by code_simp
  then obtain m' w' where "?r = Inr ((True, True), m', w', Some 1)" and "selectedOptionNum m' = Some 1"
    by (cases ?r) auto
  with a b show ?thesis by blast
qed

section \<open>Waiting for a selection that nobody makes\<close>

text \<open>
  C10. The list has no selected option, no status message to print and none on display,
  and the first wait for input ends with no key. Then \<open>waitForSelection\<close> returns, and
  what it returns is the index 0 and not the empty optional; the list and the buffers
  are as they were.
\<close>

theorem waitForSelection_initial_timeout:
  assumes "selectedOptionNum m = None"
    and "statusMessage m = []" and "\<not> hasActiveStatusMessage m"
    and "fst (waitForInput iapi True maxWaitTime h) = None"
  shows "waitForSelection api iapi custom actions maxWaitTime (m, h, ob)
       = Some (Inr (Some 0, m, snd (waitForInput iapi True maxWaitTime h), ob))"
  using assms
  by (simp add: waitForSelection_def printMenuOptionStatusMessage_def waitForValidInput_def
        wait_loop.simps wait_continues_def split_def)

theorem waitForSelection_initial_timeout_witness:
  "selectedOptionNum (fst three_options_drawn) = None
   \<and> statusMessage (fst three_options_drawn) = []
   \<and> \<not> hasActiveStatusMessage (fst three_options_drawn)
   \<and> fst (waitForInput sim_idle True 1000 (fst (snd three_options_drawn))) = None
   \<and> waitForSelection sim_api sim_idle True (DEFAULT_ACTIONS sim_api True) 1000 three_options_drawn
       = Some (Inr (Some 0, three_options_drawn))"
proof -
  let ?m = "fst three_options_drawn"
  let ?h = "fst (snd three_options_drawn)"
  let ?ob = "snd (snd three_options_drawn)"
  have a: "selectedOptionNum ?m = None" by code_simp
  have b: "statusMessage ?m = []" by code_simp
  have c: "\<not> hasActiveStatusMessage ?m" by code_simp
  have d: "fst (waitForInput sim_idle True 1000 ?h) = None" by (simp add: sim_idle_def)
  have e: "snd (waitForInput sim_idle True 1000 ?h) = ?h" by (simp add: sim_idle_def)
  from waitForSelection_initial_timeout
         [of ?m sim_idle 1000 ?h sim_api True "DEFAULT_ACTIONS sim_api True" ?ob, OF a b c d]
  have "waitForSelection sim_api sim_idle True (DEFAULT_ACTIONS sim_api True) 1000 three_options_drawn
       = Some (Inr (Some 0, three_options_drawn))"
    unfolding e by simp
  with a b c d show ?thesis by blast
qed

end
